theory Spec2Isabelle
  imports Complex_Main
begin

section \<open>Values, files and the node: what the scripts talk to\<close>

text \<open>
  The deployment script \<^verbatim>\<open>scripts/deploy.py\<close> is straight-line orchestration over the
  file system, the console and a JSON-RPC node reached through the web3 client library.
  Everything the script cannot decide by itself (what a file holds, what the node or the
  library answers, whether a call raises) is an input of the model, collected in the
  record \<open>env\<close>. Everything the script does to the outside (console lines, file opens,
  node requests, the final file write) is appended to the history of the world, in order.
  Python strings are lists of characters (code points below 256), Python integers are
  \<open>int\<close>.
\<close>

text \<open>Python values that occur as constructor arguments and as values of the saved map.\<close>

datatype pyval = PyInt int | PyStr string | PyNone

text \<open>Parsed JSON, the shape of an interface descriptor (ABI) after \<^verbatim>\<open>json.load\<close>.\<close>

datatype json =
    JNull | JBool bool | JNum int | JStr string
  | JArr "json list" | JObj "(string \<times> json) list"

text \<open>
  Exceptions. All of them are subclasses of Python's \<^verbatim>\<open>Exception\<close>;
  \<^verbatim>\<open>SystemExit\<close>, which \<^verbatim>\<open>exit()\<close> raises, is not, and is a separate outcome below.
  \<open>DeploymentReverted\<close> is the script's own
  \<^verbatim>\<open>Exception("Contract deployment failed due to revert.")\<close>; \<open>LibraryError\<close> stands for
  any other exception of the standard library, of web3 or of the node, with its message.
\<close>

datatype exn =
    FileNotFoundError
  | JSONDecodeError
  | IndexError
  | ValueError
  | DeploymentReverted
  | LibraryError string

text \<open>What a call into a library returns: a value, or a raised exception.\<close>

datatype 'a pyres = Returns 'a | Raises exn

text \<open>
  A path of the file system: no file there, a path on which \<^verbatim>\<open>open\<close> raises an
  \<^verbatim>\<open>OSError\<close> other than \<^verbatim>\<open>FileNotFoundError\<close> (permission denied, a directory;
  an undecodable file is counted here too), or a text file with its content.
\<close>

datatype fsentry = NoFile | Inaccessible string | Text string

record txparams =
  tx_from :: string
  tx_data :: string
  gas :: int
  tx_rest :: "(string \<times> pyval) list"

record receipt =
  status :: int
  contractAddress :: "string option"
  blockNumber :: int

text \<open>
  The answer of \<^verbatim>\<open>debug_traceTransaction\<close>, as far as the script looks at it:
  the value under \<^verbatim>\<open>'returnValue'\<close> (\<open>None\<close>: key absent or value \<^verbatim>\<open>None\<close>), and under
  \<^verbatim>\<open>'error'\<close> (\<open>None\<close>: key absent; \<open>Some None\<close>: present without \<^verbatim>\<open>'message'\<close>).
\<close>

record tracedict =
  returnValue :: "string option"
  trace_error :: "string option option"

text \<open>
  A contract object of web3: \<^verbatim>\<open>w3.eth.contract(address=a, abi=abi)\<close>. Its address is
  \<open>None\<close> for the address-less factory class that web3 hands back when \<^verbatim>\<open>a\<close> is falsy.
\<close>

record contract =
  address :: "string option"
  abi :: json

record env =
  eth_accounts :: "string list pyres"
  is_connected :: bool
  client_version :: "string pyres"
  block_number :: "int pyres"
  chain_id :: "int pyres"
  json_load :: "string \<Rightarrow> json option"
  json_dump :: "(string \<times> pyval) list \<Rightarrow> string"
  contract_factory :: "json \<Rightarrow> string \<Rightarrow> unit pyres"
  build_transaction :: "json \<Rightarrow> string \<Rightarrow> pyval list \<Rightarrow> string \<Rightarrow> txparams pyres"
  estimate_gas :: "txparams \<Rightarrow> int pyres"
  send_transaction :: "txparams \<Rightarrow> string pyres"
  wait_for_transaction_receipt :: "string \<Rightarrow> receipt pyres"
  debug_traceTransaction :: "string \<Rightarrow> tracedict pyres"
  utf8_decode_ignore :: "nat list \<Rightarrow> string"
  normalize_address :: "string \<Rightarrow> string pyres"
  eth_call_uint :: "string \<Rightarrow> string \<Rightarrow> pyval list \<Rightarrow> nat pyres"
  eth_call_address :: "string \<Rightarrow> string \<Rightarrow> pyval list \<Rightarrow> string pyres"

text \<open>
  The fields of \<open>env\<close>, in the order above: \<^verbatim>\<open>w3.eth.accounts\<close>; \<^verbatim>\<open>w3.is_connected()\<close>
  (it catches its own errors and answers a boolean); \<^verbatim>\<open>w3.client_version\<close>,
  \<^verbatim>\<open>w3.eth.block_number\<close>, \<^verbatim>\<open>w3.eth.chain_id\<close>; \<^verbatim>\<open>json.load\<close> on a file's text
  (\<open>None\<close>: \<^verbatim>\<open>JSONDecodeError\<close>); \<^verbatim>\<open>json.dump(_, indent=4)\<close> of a dictionary in insertion
  order; \<^verbatim>\<open>w3.eth.contract(abi=_, bytecode=_)\<close>;
  \<^verbatim>\<open>Contract.constructor(*args).build_transaction({'from': sender})\<close>;
  \<^verbatim>\<open>w3.eth.estimate_gas\<close>; \<^verbatim>\<open>w3.eth.send_transaction\<close> (the transaction hash);
  \<^verbatim>\<open>w3.eth.wait_for_transaction_receipt\<close>; the \<^verbatim>\<open>debug_traceTransaction\<close> request;
  \<^verbatim>\<open>bytes.decode('utf-8', errors='ignore')\<close>; the address validation of web3's contract
  constructor; and the read-only contract calls at an address, for a function name and
  arguments, typed by what the script does with the result (an amount, an owner).
\<close>

section \<open>Console lines, node requests, history\<close>

datatype init_msg =
    Connecting
  | NotConnected
  | Connected string
  | UsingDeployer string
  | CurrentBlock int
  | ChainId int

datatype load_msg =
    LoadingArtifacts string
  | AttemptAbi string
  | AbiLoaded string
  | AbiNotFound string
  | HintCompileAbi
  | AbiNotJson string
  | AttemptBytecode string
  | BytecodeLoaded string
  | BytecodeNotFound string
  | HintCompileBin
  | FinishedLoading string

datatype deploy_msg =
    AttemptDeploy string "pyval list"
  | EstimatedGas int int
  | TxSent string
  | WaitingMined
  | TxReverted string
  | ShowReceipt receipt
  | RevertReason string
  | RawRevertData string
  | TraceErrorMessage string
  | CouldNotTrace exn
  | DeployedAt "string option" int
  | FatalError exn

datatype main_msg =
    Starting
  | Step nat string
  | DeployedSuccessfully string "string option"
  | TotalSupply rat
  | DeployerBalance rat
  | OwnerIs string string
  | AllDeployed
  | AddressLine string "string option"
  | AddressesSaved
  | ProcessFinished

datatype msg = Init init_msg | Load load_msg | Deploy deploy_msg | Main main_msg

datatype request =
    Req_accounts
  | Req_is_connected
  | Req_client_version
  | Req_block_number
  | Req_chain_id
  | Req_build_transaction string "pyval list" string
  | Req_estimate_gas string txparams
  | Req_send_transaction string txparams
  | Req_wait_receipt string string
  | Req_trace string string
  | Req_call "string option" string "pyval list"

text \<open>
  The deployment requests carry the \<^verbatim>\<open>contract_name\<close> that \<^verbatim>\<open>deploy_contract\<close> was called
  with, so that a history says which contract each request was made for.
\<close>

datatype event =
    Console msg
  | FileRead string
  | FileWrite string string
  | NodeRequest request
  | Sleep nat

record world =
  files :: "string \<Rightarrow> fsentry"
  events :: "event list"

section \<open>Control flow: return, raise, exit\<close>

text \<open>
  A statement either completes with a value, raises an exception, or raises
  \<^verbatim>\<open>SystemExit\<close> with the argument of \<^verbatim>\<open>exit\<close> (\<open>None\<close> for \<^verbatim>\<open>exit()\<close>).
\<close>

datatype 'a outcome = Ok 'a | Exc exn | SystemExit "nat option"

type_synonym 'a proc = "world \<Rightarrow> 'a outcome \<times> world"

definition ret :: "'a \<Rightarrow> 'a proc" where
  "ret x = (\<lambda>w. (Ok x, w))"

definition raise :: "exn \<Rightarrow> 'a proc" where
  "raise e = (\<lambda>w. (Exc e, w))"

definition exit_py :: "nat option \<Rightarrow> 'a proc" where
  "exit_py c = (\<lambda>w. (SystemExit c, w))"

definition then_do :: "'a proc \<Rightarrow> ('a \<Rightarrow> 'b proc) \<Rightarrow> 'b proc" where
  "then_do m f = (\<lambda>w. case m w of
       (Ok x, w') \<Rightarrow> f x w'
     | (Exc e, w') \<Rightarrow> (Exc e, w')
     | (SystemExit c, w') \<Rightarrow> (SystemExit c, w'))"

text \<open>\<^verbatim>\<open>try: m  except Exception as e: h e\<close>. \<^verbatim>\<open>SystemExit\<close> passes through.\<close>

definition try_except :: "'a proc \<Rightarrow> (exn \<Rightarrow> 'a proc) \<Rightarrow> 'a proc" where
  "try_except m h = (\<lambda>w. case m w of
       (Exc e, w') \<Rightarrow> h e w'
     | r \<Rightarrow> r)"

definition emit :: "event \<Rightarrow> unit proc" where
  "emit e = (\<lambda>w. (Ok (), w\<lparr>events := events w @ [e]\<rparr>))"

definition print :: "msg \<Rightarrow> unit proc" where
  "print m = emit (Console m)"

definition lib :: "'a pyres \<Rightarrow> 'a proc" where
  "lib r = (case r of Returns x \<Rightarrow> ret x | Raises e \<Rightarrow> raise e)"

text \<open>A request to the node: the request is recorded, then the node's answer comes back.\<close>

definition node :: "request \<Rightarrow> 'a pyres \<Rightarrow> 'a proc" where
  "node q r = then_do (emit (NodeRequest q)) (\<lambda>_. lib r)"

text \<open>
  The exit status of the interpreter: 0 when the script runs to its end and for
  \<^verbatim>\<open>exit()\<close>, the argument for \<^verbatim>\<open>exit(n)\<close>, 1 after an uncaught exception (whose
  traceback the interpreter prints).
\<close>

fun exit_status :: "'a outcome \<Rightarrow> nat" where
  "exit_status (Ok _) = 0"
| "exit_status (SystemExit None) = 0"
| "exit_status (SystemExit (Some n)) = n"
| "exit_status (Exc _) = 1"

section \<open>String helpers of the standard library\<close>

text \<open>\<^verbatim>\<open>str.strip()\<close>: white space (for code points below 256) is removed at both ends.\<close>

definition py_isspace :: "char \<Rightarrow> bool" where
  "py_isspace c \<longleftrightarrow> (of_char c :: nat) \<in> {9, 10, 11, 12, 13, 28, 29, 30, 31, 32, 133, 160}"

definition strip :: "string \<Rightarrow> string" where
  "strip s = rev (dropWhile py_isspace (rev (dropWhile py_isspace s)))"

text \<open>\<^verbatim>\<open>str.strip('\x00')\<close>.\<close>

definition strip_nul :: "string \<Rightarrow> string" where
  "strip_nul s = rev (dropWhile (\<lambda>c. c = CHR 0x00) (rev (dropWhile (\<lambda>c. c = CHR 0x00) s)))"

text \<open>
  \<^verbatim>\<open>bytes.fromhex\<close>: pairs of hexadecimal digits, ASCII white space allowed between
  pairs; anything else is a \<^verbatim>\<open>ValueError\<close> (\<open>None\<close>).
\<close>

definition hex_digit :: "char \<Rightarrow> nat option" where
  "hex_digit c =
     (let n = (of_char c :: nat) in
      if 48 \<le> n \<and> n \<le> 57 then Some (n - 48)
      else if 97 \<le> n \<and> n \<le> 102 then Some (n - 87)
      else if 65 \<le> n \<and> n \<le> 70 then Some (n - 55)
      else None)"

definition ascii_space :: "char \<Rightarrow> bool" where
  "ascii_space c \<longleftrightarrow> (of_char c :: nat) \<in> {9, 10, 11, 12, 13, 32}"

fun fromhex :: "string \<Rightarrow> nat list option" where
  "fromhex [] = Some []"
| "fromhex [c] = (if ascii_space c then Some [] else None)"
| "fromhex (c # d # cs) =
     (if ascii_space c then fromhex (d # cs)
      else (case (hex_digit c, hex_digit d) of
              (Some a, Some b) \<Rightarrow> map_option (\<lambda>bs. (16 * a + b) # bs) (fromhex cs)
            | _ \<Rightarrow> None))"

text \<open>\<^verbatim>\<open>w3.from_wei(n, 'ether')\<close>: the amount divided by \<open>10^18\<close>, exactly.\<close>

definition from_wei_ether :: "nat \<Rightarrow> rat" where
  "from_wei_ether n = Fract (int n) (10 ^ 18)"

section \<open>What the script relies on in web3's contract objects\<close>

text \<open>
  \<^verbatim>\<open>w3.eth.contract(address=a, abi=abi)\<close>: with a falsy address (\<^verbatim>\<open>None\<close>, the empty
  string) web3 returns the contract factory class, which has no address; otherwise it
  instantiates the contract, validating the address (which may raise) and refusing an
  empty one.
\<close>

definition contract_at :: "env \<Rightarrow> string option \<Rightarrow> json \<Rightarrow> contract pyres" where
  "contract_at env a abi' =
     (case a of
        None \<Rightarrow> Returns \<lparr>address = None, abi = abi'\<rparr>
      | Some s \<Rightarrow>
          if s = [] then Returns \<lparr>address = None, abi = abi'\<rparr>
          else (case normalize_address env s of
                  Raises e \<Rightarrow> Raises e
                | Returns s' \<Rightarrow>
                    if s' = [] then Raises (LibraryError ''The address argument is required to instantiate a contract.'')
                    else Returns \<lparr>address = Some s', abi = abi'\<rparr>))"

text \<open>
  \<^verbatim>\<open>c.functions.f(*args).call()\<close>: a call through a contract object without an address
  raises before any request is made; otherwise the node is asked.
\<close>

definition call_uint :: "env \<Rightarrow> contract \<Rightarrow> string \<Rightarrow> pyval list \<Rightarrow> nat proc" where
  "call_uint env c f args =
     (case address c of
        None \<Rightarrow> raise (LibraryError ''Please ensure that this contract instance has an address.'')
      | Some a \<Rightarrow> node (Req_call (Some a) f args) (eth_call_uint env a f args))"

definition call_address :: "env \<Rightarrow> contract \<Rightarrow> string \<Rightarrow> pyval list \<Rightarrow> string proc" where
  "call_address env c f args =
     (case address c of
        None \<Rightarrow> raise (LibraryError ''Please ensure that this contract instance has an address.'')
      | Some a \<Rightarrow> node (Req_call (Some a) f args) (eth_call_address env a f args))"

text \<open>The Python value of \<^verbatim>\<open>c.address\<close>.\<close>

definition address_value :: "contract \<Rightarrow> pyval" where
  "address_value c = (case address c of None \<Rightarrow> PyNone | Some a \<Rightarrow> PyStr a)"

section \<open>The deployment script\<close>

subsection \<open>Module level: connection set-up (lines 7 to 18)\<close>

text \<open>
  The account list is read first (line 10), then the connectivity check is made
  (line 12). The value is the default account, which the rest of the script reads
  from \<^verbatim>\<open>w3.eth.default_account\<close>.
\<close>

definition module_init :: "env \<Rightarrow> string proc" where
  "module_init env =
     then_do (node Req_accounts (eth_accounts env)) (\<lambda>accounts.
     then_do (case accounts of [] \<Rightarrow> raise IndexError | a # _ \<Rightarrow> ret a) (\<lambda>default_account.
     then_do (print (Init Connecting)) (\<lambda>_.
     then_do (node Req_is_connected (Returns (is_connected env))) (\<lambda>connected.
     then_do (if \<not> connected
              then then_do (print (Init NotConnected)) (\<lambda>_. exit_py None)
              else ret ()) (\<lambda>_.
     then_do (node Req_client_version (client_version env)) (\<lambda>v.
     then_do (print (Init (Connected v))) (\<lambda>_.
     then_do (print (Init (UsingDeployer default_account))) (\<lambda>_.
     then_do (node Req_block_number (block_number env)) (\<lambda>b.
     then_do (print (Init (CurrentBlock b))) (\<lambda>_.
     then_do (node Req_chain_id (chain_id env)) (\<lambda>c.
     then_do (print (Init (ChainId c))) (\<lambda>_.
     ret default_account))))))))))))"

subsection \<open>\<^verbatim>\<open>load_contract_artifact\<close> (lines 21 to 53)\<close>

definition abi_path :: "string \<Rightarrow> string" where
  "abi_path contract_name = ''build/'' @ contract_name @ ''.json''"

definition bytecode_path :: "string \<Rightarrow> string" where
  "bytecode_path contract_name = ''build/'' @ contract_name @ ''.bin''"

text \<open>\<^verbatim>\<open>open(path, 'r')\<close> and reading the whole file.\<close>

definition read_file :: "string \<Rightarrow> string proc" where
  "read_file path =
     then_do (emit (FileRead path)) (\<lambda>_ w.
       case files w path of
         NoFile \<Rightarrow> (Exc FileNotFoundError, w)
       | Inaccessible m \<Rightarrow> (Exc (LibraryError m), w)
       | Text s \<Rightarrow> (Ok s, w))"

definition load_contract_artifact :: "env \<Rightarrow> string \<Rightarrow> (json \<times> string) proc" where
  "load_contract_artifact env contract_name =
     then_do (print (Load (LoadingArtifacts contract_name))) (\<lambda>_.
     then_do (print (Load (AttemptAbi (abi_path contract_name)))) (\<lambda>_.
     then_do (try_except
                (then_do (read_file (abi_path contract_name)) (\<lambda>f.
                 then_do (case json_load env f of None \<Rightarrow> raise JSONDecodeError | Some j \<Rightarrow> ret j) (\<lambda>abi'.
                 then_do (print (Load (AbiLoaded contract_name))) (\<lambda>_.
                 ret abi'))))
                (\<lambda>e. case e of
                   FileNotFoundError \<Rightarrow>
                     then_do (print (Load (AbiNotFound (abi_path contract_name)))) (\<lambda>_.
                     then_do (print (Load HintCompileAbi)) (\<lambda>_.
                     exit_py None))
                 | JSONDecodeError \<Rightarrow>
                     then_do (print (Load (AbiNotJson (abi_path contract_name)))) (\<lambda>_.
                     exit_py None)
                 | _ \<Rightarrow> raise e)) (\<lambda>abi'.
     then_do (print (Load (AttemptBytecode (bytecode_path contract_name)))) (\<lambda>_.
     then_do (try_except
                (then_do (read_file (bytecode_path contract_name)) (\<lambda>f.
                 then_do (print (Load (BytecodeLoaded contract_name))) (\<lambda>_.
                 ret (strip f))))
                (\<lambda>e. case e of
                   FileNotFoundError \<Rightarrow>
                     then_do (print (Load (BytecodeNotFound (bytecode_path contract_name)))) (\<lambda>_.
                     then_do (print (Load HintCompileBin)) (\<lambda>_.
                     exit_py None))
                 | _ \<Rightarrow> raise e)) (\<lambda>bytecode.
     then_do (print (Load (FinishedLoading contract_name))) (\<lambda>_.
     ret (abi', bytecode)))))))"

subsection \<open>\<^verbatim>\<open>deploy_contract\<close> (lines 55 to 98)\<close>

text \<open>
  The diagnostic step after a reverted deployment (lines 78 to 90): the trace request,
  what is shown of its answer, and the handler that logs any exception of the step.
\<close>

definition truthy :: "string option \<Rightarrow> bool" where
  "truthy v = (case v of None \<Rightarrow> False | Some s \<Rightarrow> s \<noteq> [])"

definition trace_revert_reason :: "env \<Rightarrow> string \<Rightarrow> string \<Rightarrow> unit proc" where
  "trace_revert_reason env contract_name tx_hash =
     try_except
       (then_do (node (Req_trace contract_name tx_hash) (debug_traceTransaction env tx_hash)) (\<lambda>trace.
        if truthy (returnValue trace) then
          then_do (ret (the (returnValue trace))) (\<lambda>revert_data.
          if take 10 revert_data = ''0x08c379a0'' then
            then_do (case fromhex (drop 10 revert_data) of
                       None \<Rightarrow> raise ValueError
                     | Some bs \<Rightarrow> ret (strip_nul (utf8_decode_ignore env bs))) (\<lambda>revert_reason.
            print (Deploy (RevertReason revert_reason)))
          else print (Deploy (RawRevertData revert_data)))
        else (case trace_error trace of
                Some (Some m) \<Rightarrow> print (Deploy (TraceErrorMessage m))
              | _ \<Rightarrow> ret ())))
       (\<lambda>trace_e. print (Deploy (CouldNotTrace trace_e)))"

definition deploy_contract ::
  "env \<Rightarrow> string \<Rightarrow> string \<Rightarrow> json \<Rightarrow> string \<Rightarrow> pyval list \<Rightarrow> contract proc" where
  "deploy_contract env default_account contract_name abi' bytecode args =
     then_do (lib (contract_factory env abi' bytecode)) (\<lambda>_.
     then_do (print (Deploy (AttemptDeploy contract_name args))) (\<lambda>_.
     try_except
       (then_do (node (Req_build_transaction contract_name args default_account)
                   (build_transaction env abi' bytecode args default_account)) (\<lambda>tx_build.
        then_do (node (Req_estimate_gas contract_name tx_build) (estimate_gas env tx_build)) (\<lambda>estimated_gas.
        then_do (ret (tx_build\<lparr>gas := estimated_gas + 100000\<rparr>)) (\<lambda>tx_build.
        then_do (print (Deploy (EstimatedGas estimated_gas (gas tx_build)))) (\<lambda>_.
        then_do (node (Req_send_transaction contract_name tx_build) (send_transaction env tx_build)) (\<lambda>tx_hash.
        then_do (print (Deploy (TxSent tx_hash))) (\<lambda>_.
        then_do (print (Deploy WaitingMined)) (\<lambda>_.
        then_do (node (Req_wait_receipt contract_name tx_hash)
                   (wait_for_transaction_receipt env tx_hash)) (\<lambda>tx_receipt.
        then_do (if status tx_receipt = 0 then
                   then_do (print (Deploy (TxReverted tx_hash))) (\<lambda>_.
                   then_do (print (Deploy (ShowReceipt tx_receipt))) (\<lambda>_.
                   then_do (trace_revert_reason env contract_name tx_hash) (\<lambda>_.
                   raise DeploymentReverted)))
                 else ret ()) (\<lambda>_.
        then_do (ret (contractAddress tx_receipt)) (\<lambda>contract_address.
        then_do (print (Deploy (DeployedAt contract_address (blockNumber tx_receipt)))) (\<lambda>_.
        lib (contract_at env contract_address abi')))))))))))))
       (\<lambda>e. then_do (print (Deploy (FatalError e))) (\<lambda>_. exit_py (Some 1)))))"

subsection \<open>\<^verbatim>\<open>main\<close> (lines 100 to 148)\<close>

definition initial_supply :: int where
  "initial_supply = 1000000 * 10 ^ 18"

text \<open>Step 1 of 3, lines 104 to 111.\<close>

definition deploy_MyToken :: "env \<Rightarrow> string \<Rightarrow> contract proc" where
  "deploy_MyToken env default_account =
     then_do (print (Main (Step 1 ''MyToken''))) (\<lambda>_.
     then_do (load_contract_artifact env ''MyToken'') (\<lambda>(token_abi, token_bytecode).
     then_do (deploy_contract env default_account ''MyToken'' token_abi token_bytecode
                [PyInt initial_supply]) (\<lambda>token_contract.
     then_do (print (Main (DeployedSuccessfully ''MyToken'' (address token_contract)))) (\<lambda>_.
     then_do (call_uint env token_contract ''totalSupply'' []) (\<lambda>supply.
     then_do (print (Main (TotalSupply (from_wei_ether supply)))) (\<lambda>_.
     then_do (call_uint env token_contract ''balanceOf'' [PyStr default_account]) (\<lambda>balance.
     then_do (print (Main (DeployerBalance (from_wei_ether balance)))) (\<lambda>_.
     then_do (emit (Sleep 1)) (\<lambda>_.
     ret token_contract)))))))))"

text \<open>
  Steps 2 and 3, lines 114 to 122 and 125 to 132: the same statements for
  \<^verbatim>\<open>"DataReview"\<close> (step 2) and \<^verbatim>\<open>"DataBundle"\<close> (step 3), each with the constructor
  arguments \<^verbatim>\<open>token_contract.address, w3.eth.default_account\<close>.
\<close>

definition deploy_dependent :: "env \<Rightarrow> string \<Rightarrow> nat \<Rightarrow> string \<Rightarrow> contract \<Rightarrow> contract proc" where
  "deploy_dependent env default_account n contract_name token_contract =
     then_do (print (Main (Step n contract_name))) (\<lambda>_.
     then_do (load_contract_artifact env contract_name) (\<lambda>(abi', bytecode).
     then_do (deploy_contract env default_account contract_name abi' bytecode
                [address_value token_contract, PyStr default_account]) (\<lambda>c.
     then_do (print (Main (DeployedSuccessfully contract_name (address c)))) (\<lambda>_.
     then_do (call_address env c ''owner'' []) (\<lambda>owner.
     then_do (print (Main (OwnerIs contract_name owner))) (\<lambda>_.
     then_do (emit (Sleep 1)) (\<lambda>_.
     ret c)))))))"

text \<open>
  \<^verbatim>\<open>open(path, 'w')\<close> followed by writing the content: the file is created or its
  content replaced.
\<close>

definition write_file :: "string \<Rightarrow> string \<Rightarrow> unit proc" where
  "write_file path content = (\<lambda>w.
     case files w path of
       Inaccessible m \<Rightarrow> (Exc (LibraryError m), w)
     | _ \<Rightarrow> (Ok (), w\<lparr>files := (files w)(path := Text content),
                       events := events w @ [FileWrite path content]\<rparr>))"

text \<open>Lines 134 to 148.\<close>

definition save_addresses :: "env \<Rightarrow> contract \<Rightarrow> contract \<Rightarrow> contract \<Rightarrow> unit proc" where
  "save_addresses env token_contract data_review_contract data_bundle_contract =
     then_do (print (Main AllDeployed)) (\<lambda>_.
     then_do (print (Main (AddressLine ''MyToken'' (address token_contract)))) (\<lambda>_.
     then_do (print (Main (AddressLine ''DataReview'' (address data_review_contract)))) (\<lambda>_.
     then_do (print (Main (AddressLine ''DataBundle'' (address data_bundle_contract)))) (\<lambda>_.
     then_do (ret [(''MyToken'', address_value token_contract),
                   (''DataReview'', address_value data_review_contract),
                   (''DataBundle'', address_value data_bundle_contract)]) (\<lambda>contract_addresses.
     then_do (write_file ''contract_addresses.json'' (json_dump env contract_addresses)) (\<lambda>_.
     then_do (print (Main AddressesSaved)) (\<lambda>_.
     print (Main ProcessFinished))))))))"

definition main :: "env \<Rightarrow> string \<Rightarrow> unit proc" where
  "main env default_account =
     then_do (print (Main Starting)) (\<lambda>_.
     then_do (deploy_MyToken env default_account) (\<lambda>token_contract.
     then_do (deploy_dependent env default_account 2 ''DataReview'' token_contract) (\<lambda>data_review_contract.
     then_do (deploy_dependent env default_account 3 ''DataBundle'' token_contract) (\<lambda>data_bundle_contract.
     save_addresses env token_contract data_review_contract data_bundle_contract))))"

text \<open>
  The script run as a program: the module level, then \<^verbatim>\<open>main()\<close>. A process starts
  with an empty history.
\<close>

definition program :: "env \<Rightarrow> unit proc" where
  "program env = then_do (module_init env) (\<lambda>default_account. main env default_account)"

definition run :: "env \<Rightarrow> (string \<Rightarrow> fsentry) \<Rightarrow> unit outcome \<times> world" where
  "run env fs = program env \<lparr>files = fs, events = []\<rparr>"

section \<open>Reading a history\<close>

text \<open>What a statement added to the history: the events of \<open>w'\<close> after those of \<open>w\<close>.\<close>

definition new_events :: "world \<Rightarrow> world \<Rightarrow> event list" where
  "new_events w w' = drop (length (events w)) (events w')"

text \<open>The contract a node request was made for, if it belongs to a deployment.\<close>

fun request_for :: "request \<Rightarrow> string option" where
  "request_for (Req_build_transaction n _ _) = Some n"
| "request_for (Req_estimate_gas n _) = Some n"
| "request_for (Req_send_transaction n _) = Some n"
| "request_for (Req_wait_receipt n _) = Some n"
| "request_for (Req_trace n _) = Some n"
| "request_for _ = None"

text \<open>
  An event that is part of deploying the contract \<open>n\<close>: opening one of its two artifact
  files, or a node request of its deployment (construction, estimate, submission,
  receipt, trace).
\<close>

fun for_contract :: "string \<Rightarrow> event \<Rightarrow> bool" where
  "for_contract n (FileRead p) = (p = abi_path n \<or> p = bytecode_path n)"
| "for_contract n (NodeRequest q) = (request_for q = Some n)"
| "for_contract n _ = False"

definition attempted :: "string \<Rightarrow> event list \<Rightarrow> bool" where
  "attempted n es = list_ex (for_contract n) es"

text \<open>The deployment requests of a history, in order.\<close>

fun deployment_requests :: "event list \<Rightarrow> request list" where
  "deployment_requests [] = []"
| "deployment_requests (NodeRequest q # es) =
     (if request_for q = None then deployment_requests es else q # deployment_requests es)"
| "deployment_requests (_ # es) = deployment_requests es"

text \<open>
  The contracts whose deployment receipt came back with a status other than 0
  (the test of line 74), in the order of the receipts.
\<close>

fun confirmed :: "env \<Rightarrow> event list \<Rightarrow> string list" where
  "confirmed env [] = []"
| "confirmed env (NodeRequest (Req_wait_receipt n h) # es) =
     (case wait_for_transaction_receipt env h of
        Returns rc \<Rightarrow> if status rc = 0 then confirmed env es else n # confirmed env es
      | Raises _ \<Rightarrow> confirmed env es)"
| "confirmed env (_ # es) = confirmed env es"

text \<open>The file writes of a history, in order.\<close>

fun writes :: "event list \<Rightarrow> (string \<times> string) list" where
  "writes [] = []"
| "writes (FileWrite p c # es) = (p, c) # writes es"
| "writes (_ # es) = writes es"

text \<open>
  The address web3 gives the contract object made for a receipt's \<^verbatim>\<open>contractAddress\<close>
  (\<open>None\<close> when no contract object with an address results).
\<close>

definition address_at :: "env \<Rightarrow> string option \<Rightarrow> string option" where
  "address_at env a = (case contract_at env a JNull of Returns c \<Rightarrow> address c | Raises _ \<Rightarrow> None)"

text \<open>
  The addresses of the contracts that a sequence of deployment requests created on the
  node: for each receipt request answered with a status other than 0, the address of
  its contract, in order.
\<close>

fun created :: "env \<Rightarrow> request list \<Rightarrow> string list" where
  "created env [] = []"
| "created env (Req_wait_receipt n h # qs) =
     (case wait_for_transaction_receipt env h of
        Returns rc \<Rightarrow>
          if status rc = 0 then created env qs
          else (case address_at env (contractAddress rc) of
                  Some a \<Rightarrow> a # created env qs
                | None \<Rightarrow> created env qs)
      | Raises _ \<Rightarrow> created env qs)"
| "created env (_ # qs) = created env qs"

text \<open>
  A stretch of history in which no file is written and every deployment event is for
  the contract \<open>n\<close>.
\<close>

definition only_for :: "string \<Rightarrow> event list \<Rightarrow> bool" where
  "only_for n es \<longleftrightarrow>
     (\<forall>e \<in> set es. (\<forall>p c. e \<noteq> FileWrite p c) \<and> (\<forall>m. for_contract m e \<longrightarrow> m = n))"

text \<open>
  A statement is compatible with a relation between worlds when, started in two related worlds,
  it ends with the same outcome in two related worlds.
\<close>

definition compatible :: "(world \<Rightarrow> world \<Rightarrow> bool) \<Rightarrow> 'a proc \<Rightarrow> bool" where
  "compatible R p \<longleftrightarrow>
     (\<forall>w1 w2. R w1 w2 \<longrightarrow> fst (p w1) = fst (p w2) \<and> R (snd (p w1)) (snd (p w2)))"

text \<open>Two worlds with the same files, whatever their histories.\<close>

definition same_files :: "world \<Rightarrow> world \<Rightarrow> bool" where
  "same_files w1 w2 \<longleftrightarrow> files w1 = files w2"

text \<open>
  Two worlds with the same history and the same files but for the content of the
  path \<open>out\<close>, which can be opened for writing in both or in neither.
\<close>

definition same_but :: "string \<Rightarrow> world \<Rightarrow> world \<Rightarrow> bool" where
  "same_but out w1 w2 \<longleftrightarrow>
     events w1 = events w2 \<and>
     (\<forall>p. p \<noteq> out \<longrightarrow> files w1 p = files w2 p) \<and>
     (\<forall>m. files w1 out = Inaccessible m \<longleftrightarrow> files w2 out = Inaccessible m)"

section \<open>A sample node and build directory\<close>

text \<open>
  A node on which every request succeeds and a build directory holding the three
  artifacts, for running the script on concrete inputs.
\<close>

definition sample_dump :: "(string \<times> pyval) list \<Rightarrow> string" where
  "sample_dump kvs =
     concat (map (\<lambda>(k, v). k @ ''='' @ (case v of PyStr a \<Rightarrow> a | PyInt _ \<Rightarrow> ''int'' | PyNone \<Rightarrow> ''null'') @ '';'') kvs)"

definition sample_env :: env where
  "sample_env = \<lparr>
     eth_accounts = Returns [''0xd0'', ''0xd1''],
     is_connected = True,
     client_version = Returns ''Ganache'',
     block_number = Returns 0,
     chain_id = Returns 1337,
     json_load = (\<lambda>s. if s = ''[]'' then Some (JArr []) else None),
     json_dump = sample_dump,
     contract_factory = (\<lambda>_ _. Returns ()),
     build_transaction = (\<lambda>_ bytecode _ sender.
        Returns \<lparr>tx_from = sender, tx_data = bytecode, gas = 0, tx_rest = []\<rparr>),
     estimate_gas = (\<lambda>_. Returns 500000),
     send_transaction = (\<lambda>tx. Returns (''0xh'' @ tx_data tx)),
     wait_for_transaction_receipt = (\<lambda>h.
        Returns \<lparr>status = 1, contractAddress = Some (''0xc'' @ drop 3 h), blockNumber = 1\<rparr>),
     debug_traceTransaction = (\<lambda>_. Raises (LibraryError ''Method debug_traceTransaction not supported'')),
     utf8_decode_ignore = map char_of,
     normalize_address = Returns,
     eth_call_uint = (\<lambda>_ _ _. Returns (1000000 * 10 ^ 18)),
     eth_call_address = (\<lambda>_ _ _. Returns ''0xd0'')
   \<rparr>"

definition sample_files :: "string \<Rightarrow> fsentry" where
  "sample_files p =
     (if p = ''build/MyToken.json'' \<or> p = ''build/DataReview.json'' \<or> p = ''build/DataBundle.json''
      then Text ''[]''
      else if p = ''build/MyToken.bin'' then Text ''a0''
      else if p = ''build/DataReview.bin'' then Text ''b0''
      else if p = ''build/DataBundle.bin'' then Text ''c0''
      else NoFile)"

text \<open>The same node, on which every deployment transaction is mined as reverted.\<close>

definition reverting_env :: "tracedict pyres \<Rightarrow> env" where
  "reverting_env t = sample_env\<lparr>
     wait_for_transaction_receipt := (\<lambda>_.
        Returns \<lparr>status = 0, contractAddress = None, blockNumber = 1\<rparr>),
     debug_traceTransaction := (\<lambda>_. t)\<rparr>"

text \<open>
  The same node later on, its chain still holding what was deployed before: the
  contracts it creates now get addresses it has not given out in \<open>sample_env\<close>.
\<close>

definition later_env :: env where
  "later_env = sample_env\<lparr>
     wait_for_transaction_receipt := (\<lambda>h.
        Returns \<lparr>status = 1, contractAddress = Some (''0xe'' @ drop 3 h), blockNumber = 2\<rparr>)\<rparr>"

section \<open>The static-file server \<^verbatim>\<open>visualise.py\<close>\<close>

datatype http_method = GET | HEAD | POST | PUT | DELETE | OPTIONS | PATCH

datatype endpoint =
    Read_root
  | StaticFiles string
  | Framework_page string

text \<open>
  A route of the application's routing table: a path with its allowed methods and its
  endpoint, or a mount of a sub-application under a path prefix, with its name.
\<close>

datatype route =
    Route string "http_method list" endpoint
  | Mount string endpoint string

record fastapi =
  routes :: "route list"

datatype response = FileResponse string string

text \<open>
  \<^verbatim>\<open>app = FastAPI()\<close>: the application object starts with the routes that the framework's
  constructor installs by itself, \<open>fw\<close>, a parameter of the model.
\<close>

definition FastAPI :: "route list \<Rightarrow> fastapi" where
  "FastAPI fw = \<lparr>routes = fw\<rparr>"

text \<open>\<^verbatim>\<open>app.mount(path, sub, name=name)\<close> and the decorator \<^verbatim>\<open>@app.get(path)\<close>.\<close>

definition mount :: "fastapi \<Rightarrow> string \<Rightarrow> endpoint \<Rightarrow> string \<Rightarrow> fastapi" where
  "mount a path sub name = a\<lparr>routes := routes a @ [Mount path sub name]\<rparr>"

definition get :: "fastapi \<Rightarrow> string \<Rightarrow> endpoint \<Rightarrow> fastapi" where
  "get a path f = a\<lparr>routes := routes a @ [Route path [GET] f]\<rparr>"

definition STATIC_DIR :: string where
  "STATIC_DIR = ''visualisation''"

definition app :: "route list \<Rightarrow> fastapi" where
  "app fw = get (mount (FastAPI fw) ''/visualisation'' (StaticFiles STATIC_DIR) ''visualisation'')
              ''/'' Read_root"

text \<open>\<^verbatim>\<open>os.path.join\<close> of two components, on POSIX.\<close>

definition os_path_join :: "string \<Rightarrow> string \<Rightarrow> string" where
  "os_path_join a b =
     (if b \<noteq> [] \<and> hd b = CHR ''/'' then b
      else if a = [] \<or> last a = CHR ''/'' then a @ b
      else a @ ''/'' @ b)"

definition read_root :: response where
  "read_root = FileResponse (os_path_join STATIC_DIR ''marketplace_visualiser.html'') ''text/html''"

text \<open>
  Whether a route takes a request: a plain route takes its exact path with one of its
  methods, a mount takes every path below its prefix.
\<close>

fun serves :: "http_method \<Rightarrow> string \<Rightarrow> route \<Rightarrow> bool" where
  "serves m q (Route p ms _) = (q = p \<and> m \<in> set ms)"
| "serves m q (Mount p _ _) = (take (length p + 1) q = p @ ''/'')"

definition exposed :: "fastapi \<Rightarrow> http_method \<Rightarrow> string \<Rightarrow> bool" where
  "exposed a m q = list_ex (serves m q) (routes a)"

text \<open>
  The routes that \<^verbatim>\<open>FastAPI()\<close>, called without arguments as in line 6, installs: the
  OpenAPI schema and the two interactive documentation pages with the redirect page of
  the first.
\<close>

definition FastAPI_default_routes :: "route list" where
  "FastAPI_default_routes =
     [Route ''/openapi.json'' [GET, HEAD] (Framework_page ''openapi''),
      Route ''/docs'' [GET, HEAD] (Framework_page ''swagger_ui_html''),
      Route ''/docs/oauth2-redirect'' [GET, HEAD] (Framework_page ''swagger_ui_redirect''),
      Route ''/redoc'' [GET, HEAD] (Framework_page ''redoc_html'')]"

section \<open>Rules for running statements\<close>

lemma ret_apply: "ret x w = (Ok x, w)" by (simp add: ret_def)
lemma raise_apply: "raise e w = (Exc e, w)" by (simp add: raise_def)
lemma exit_py_apply: "exit_py c w = (SystemExit c, w)" by (simp add: exit_py_def)
lemma emit_apply: "emit e w = (Ok (), w\<lparr>events := events w @ [e]\<rparr>)" by (simp add: emit_def)
lemma print_apply: "print m w = (Ok (), w\<lparr>events := events w @ [Console m]\<rparr>)" by (simp add: print_def emit_def)
lemma then_do_apply:
  "then_do m f w = (case m w of (Ok x, w') \<Rightarrow> f x w' | (Exc e, w') \<Rightarrow> (Exc e, w') | (SystemExit c, w') \<Rightarrow> (SystemExit c, w'))"
  by (simp add: then_do_def)
lemma try_apply: "try_except m h w = (case m w of (Exc e, w') \<Rightarrow> h e w' | r \<Rightarrow> r)"
  by (simp add: try_except_def)
lemma lib_apply: "lib p w = (case p of Returns x \<Rightarrow> (Ok x, w) | Raises e \<Rightarrow> (Exc e, w))"
  by (simp add: lib_def ret_def raise_def split: pyres.splits)
lemma node_apply: "node q p w = (case p of Returns x \<Rightarrow> (Ok x, w\<lparr>events := events w @ [NodeRequest q]\<rparr>)
     | Raises e \<Rightarrow> (Exc e, w\<lparr>events := events w @ [NodeRequest q]\<rparr>))"
  by (simp add: node_def then_do_def emit_def lib_apply split: pyres.splits)

lemmas proc_simps = ret_apply raise_apply exit_py_apply emit_apply print_apply
  then_do_apply try_apply lib_apply node_apply

lemma new_events_self [simp]: "new_events w w = []"
  by (simp add: new_events_def)

lemma new_events_ext [simp]: "new_events w (w\<lparr>events := events w @ es\<rparr>) = es"
  by (simp add: new_events_def)

lemma new_events_files [simp]: "new_events w (w\<lparr>files := f, events := events w @ es\<rparr>) = es"
  by (simp add: new_events_def)

lemma abi_path_inj [simp]: "abi_path n = abi_path m \<longleftrightarrow> n = m"
  by (simp add: abi_path_def)

lemma bytecode_path_inj [simp]: "bytecode_path n = bytecode_path m \<longleftrightarrow> n = m"
  by (simp add: bytecode_path_def)

lemma abi_path_not_bytecode_path [simp]: "abi_path n \<noteq> bytecode_path m"
proof
  assume "abi_path n = bytecode_path m"
  then have "rev (n @ ''.json'') = rev (m @ ''.bin'')"
    by (simp add: abi_path_def bytecode_path_def)
  then show False by simp
qed

lemma bytecode_path_not_abi_path [simp]: "bytecode_path m \<noteq> abi_path n"
  using abi_path_not_bytecode_path [of n m] by metis

lemma output_not_artifact [simp]:
  "abi_path n \<noteq> ''contract_addresses.json''" "bytecode_path n \<noteq> ''contract_addresses.json''"
  "''contract_addresses.json'' \<noteq> abi_path n" "''contract_addresses.json'' \<noteq> bytecode_path n"
  by (simp_all add: abi_path_def bytecode_path_def)

subsection \<open>Loading artifacts\<close>

lemma load_Ok:
  "load_contract_artifact env n w = (Ok (j, b), w') \<longleftrightarrow>
     (\<exists>s t. files w (abi_path n) = Text s \<and> json_load env s = Some j \<and>
            files w (bytecode_path n) = Text t \<and> b = strip t \<and>
            w' = w\<lparr>events := events w @
              [Console (Load (LoadingArtifacts n)), Console (Load (AttemptAbi (abi_path n))),
               FileRead (abi_path n), Console (Load (AbiLoaded n)),
               Console (Load (AttemptBytecode (bytecode_path n))), FileRead (bytecode_path n),
               Console (Load (BytecodeLoaded n)), Console (Load (FinishedLoading n))]\<rparr>)"
  by (auto simp: load_contract_artifact_def read_file_def proc_simps
           split: fsentry.splits option.splits)

lemma load_frame:
  assumes "load_contract_artifact env n w = (r, w')"
  shows "\<exists>es. w' = w\<lparr>events := events w @ es\<rparr> \<and>
           (\<forall>e \<in> set es. (\<exists>m. e = Console m) \<or> e = FileRead (abi_path n) \<or> e = FileRead (bytecode_path n))"
proof -
  from assms have "w' = w\<lparr>events := events w @ new_events w w'\<rparr> \<and>
     (\<forall>e \<in> set (new_events w w'). (\<exists>m. e = Console m) \<or> e = FileRead (abi_path n) \<or> e = FileRead (bytecode_path n))"
    by (auto simp: load_contract_artifact_def read_file_def proc_simps
           split: fsentry.splits option.splits)
  then show ?thesis by blast
qed

lemma trace_revert_reason_frame:
  "trace_revert_reason env n h w = (r, w') \<Longrightarrow>
    r = Ok () \<and> (\<exists>es. w' = w\<lparr>events := events w @ NodeRequest (Req_trace n h) # es\<rparr> \<and>
                     (\<forall>e \<in> set es. \<exists>m. e = Console m))"
  by (auto simp: trace_revert_reason_def proc_simps split: pyres.splits option.splits if_splits)

lemma deploy_contract_Ok:
  "deploy_contract env acct n j b args w = (Ok c, w') \<longleftrightarrow>
     (\<exists>tx0 g h rc. contract_factory env j b = Returns () \<and>
        build_transaction env j b args acct = Returns tx0 \<and>
        estimate_gas env tx0 = Returns g \<and>
        send_transaction env (tx0\<lparr>gas := g + 100000\<rparr>) = Returns h \<and>
        wait_for_transaction_receipt env h = Returns rc \<and> status rc \<noteq> 0 \<and>
        contract_at env (contractAddress rc) j = Returns c \<and>
        w' = w\<lparr>events := events w @
          [Console (Deploy (AttemptDeploy n args)),
           NodeRequest (Req_build_transaction n args acct),
           NodeRequest (Req_estimate_gas n tx0),
           Console (Deploy (EstimatedGas g (g + 100000))),
           NodeRequest (Req_send_transaction n (tx0\<lparr>gas := g + 100000\<rparr>)),
           Console (Deploy (TxSent h)), Console (Deploy WaitingMined),
           NodeRequest (Req_wait_receipt n h),
           Console (Deploy (DeployedAt (contractAddress rc) (blockNumber rc)))]\<rparr>)"
  by (auto simp: deploy_contract_def proc_simps
           split: pyres.splits if_splits prod.splits outcome.splits dest!: trace_revert_reason_frame)

lemma deploy_contract_frame:
  assumes "deploy_contract env acct n j b args w = (r, w')"
  shows "\<exists>es. w' = w\<lparr>events := events w @ es\<rparr> \<and>
           (\<forall>e \<in> set es. (\<exists>m. e = Console m) \<or> (\<exists>q. e = NodeRequest q \<and> request_for q = Some n))"
proof -
  from assms have "w' = w\<lparr>events := events w @ new_events w w'\<rparr> \<and>
     (\<forall>e \<in> set (new_events w w'). (\<exists>m. e = Console m) \<or> (\<exists>q. e = NodeRequest q \<and> request_for q = Some n))"
    by (auto simp: deploy_contract_def proc_simps
           split: pyres.splits if_splits prod.splits outcome.splits dest!: trace_revert_reason_frame)
  then show ?thesis by blast
qed


lemma deploy_contract_outcome:
  assumes "deploy_contract env acct n j b args w = (r, w')"
  shows "(\<exists>c. r = Ok c) \<or> r = SystemExit (Some 1) \<or> (\<exists>e. r = Exc e \<and> contract_factory env j b = Raises e)"
  using assms
  by (auto simp: deploy_contract_def proc_simps
           split: pyres.splits if_splits prod.splits outcome.splits dest!: trace_revert_reason_frame)

lemma call_uint_Ok:
  "call_uint env c f args w = (Ok v, w') \<longleftrightarrow>
     (\<exists>a. address c = Some a \<and> eth_call_uint env a f args = Returns v \<and>
          w' = w\<lparr>events := events w @ [NodeRequest (Req_call (Some a) f args)]\<rparr>)"
  by (auto simp: call_uint_def proc_simps split: option.splits pyres.splits)

lemma call_address_Ok:
  "call_address env c f args w = (Ok v, w') \<longleftrightarrow>
     (\<exists>a. address c = Some a \<and> eth_call_address env a f args = Returns v \<and>
          w' = w\<lparr>events := events w @ [NodeRequest (Req_call (Some a) f args)]\<rparr>)"
  by (auto simp: call_address_def proc_simps split: option.splits pyres.splits)

lemma call_uint_frame:
  "call_uint env c f args w = (r, w') \<Longrightarrow>
     w' = w \<or> (\<exists>a. w' = w\<lparr>events := events w @ [NodeRequest (Req_call a f args)]\<rparr>)"
  by (auto simp: call_uint_def proc_simps split: option.splits pyres.splits)

lemma call_address_frame:
  "call_address env c f args w = (r, w') \<Longrightarrow>
     w' = w \<or> (\<exists>a. w' = w\<lparr>events := events w @ [NodeRequest (Req_call a f args)]\<rparr>)"
  by (auto simp: call_address_def proc_simps split: option.splits pyres.splits)

lemma contract_at_address:
  "contract_at env a j = Returns c \<Longrightarrow> address c = Some x \<Longrightarrow> x \<noteq> [] \<and> abi c = j"
  by (auto simp: contract_at_def split: option.splits if_splits pyres.splits)



subsection \<open>What each step may add to the history\<close>

lemma only_for_Nil [simp]: "only_for n []" by (simp add: only_for_def)
lemma only_for_append [simp]: "only_for n (xs @ ys) \<longleftrightarrow> only_for n xs \<and> only_for n ys"
  by (auto simp: only_for_def)
lemma only_for_Cons_Console [simp]: "only_for n (Console m # es) \<longleftrightarrow> only_for n es"
  by (auto simp: only_for_def)
lemma only_for_Cons_Sleep [simp]: "only_for n (Sleep k # es) \<longleftrightarrow> only_for n es"
  by (auto simp: only_for_def)
lemma only_for_Cons_call [simp]: "only_for n (NodeRequest (Req_call a f args) # es) \<longleftrightarrow> only_for n es"
  by (auto simp: only_for_def)

lemma load_only_for:
  assumes "load_contract_artifact env n w = (r, w')"
  shows "\<exists>es. w' = w\<lparr>events := events w @ es\<rparr> \<and> only_for n es \<and> (\<forall>q. NodeRequest q \<notin> set es)"
  using load_frame [OF assms] by (fastforce simp: only_for_def)

lemma deploy_contract_only_for:
  assumes "deploy_contract env acct n j b args w = (r, w')"
  shows "\<exists>es. w' = w\<lparr>events := events w @ es\<rparr> \<and> only_for n es"
  using deploy_contract_frame [OF assms] by (fastforce simp: only_for_def)

lemma call_uint_only_for:
  assumes "call_uint env c f args w = (r, w')"
  shows "\<exists>es. w' = w\<lparr>events := events w @ es\<rparr> \<and> only_for n es"
proof -
  from assms have "w' = w\<lparr>events := events w @ new_events w w'\<rparr> \<and> only_for n (new_events w w')"
    by (auto simp: call_uint_def proc_simps split: option.splits pyres.splits)
  then show ?thesis by blast
qed

lemma call_address_only_for:
  assumes "call_address env c f args w = (r, w')"
  shows "\<exists>es. w' = w\<lparr>events := events w @ es\<rparr> \<and> only_for n es"
proof -
  from assms have "w' = w\<lparr>events := events w @ new_events w w'\<rparr> \<and> only_for n (new_events w w')"
    by (auto simp: call_address_def proc_simps split: option.splits pyres.splits)
  then show ?thesis by blast
qed

lemma deploy_MyToken_only_for:
  assumes "deploy_MyToken env acct w = (r, w')"
  shows "\<exists>es. w' = w\<lparr>events := events w @ es\<rparr> \<and> only_for ''MyToken'' es"
proof -
  from assms have "w' = w\<lparr>events := events w @ new_events w w'\<rparr> \<and> only_for ''MyToken'' (new_events w w')"
    by (auto simp: deploy_MyToken_def proc_simps split: prod.splits outcome.splits
          dest!: load_only_for deploy_contract_only_for call_uint_only_for [where n = "''MyToken''"])
  then show ?thesis by blast
qed

lemma deploy_dependent_only_for:
  assumes "deploy_dependent env acct k n c w = (r, w')"
  shows "\<exists>es. w' = w\<lparr>events := events w @ es\<rparr> \<and> only_for n es"
proof -
  from assms have "w' = w\<lparr>events := events w @ new_events w w'\<rparr> \<and> only_for n (new_events w w')"
    by (auto simp: deploy_dependent_def proc_simps split: prod.splits outcome.splits
          dest!: load_only_for deploy_contract_only_for call_address_only_for [where n = n])
  then show ?thesis by blast
qed


subsection \<open>Statements that do not look at part of the world\<close>

lemma compatible_ret: "compatible R (ret x)"
  by (simp add: compatible_def ret_def)
lemma compatible_raise: "compatible R (raise e)"
  by (simp add: compatible_def raise_def)
lemma compatible_exit: "compatible R (exit_py c)"
  by (simp add: compatible_def exit_py_def)
lemma compatible_lib: "compatible R (lib r)"
  by (cases r) (simp_all add: compatible_def lib_def ret_def raise_def)
lemma compatible_then_do:
  assumes "compatible R m" and "\<And>x. compatible R (f x)"
  shows "compatible R (then_do m f)"
  unfolding compatible_def
proof (intro allI impI)
  fix w1 w2 assume r: "R w1 w2"
  obtain r1 u1 r2 u2 where m: "m w1 = (r1, u1)" "m w2 = (r2, u2)"
    by (metis surj_pair)
  from assms(1) r have "fst (m w1) = fst (m w2)" "R (snd (m w1)) (snd (m w2))"
    by (simp_all add: compatible_def)
  with m have eq: "r2 = r1" and u: "R u1 u2"
    by simp_all
  from assms(2) u have f: "\<And>x. fst (f x u1) = fst (f x u2) \<and> R (snd (f x u1)) (snd (f x u2))"
    by (simp add: compatible_def)
  show "fst (then_do m f w1) = fst (then_do m f w2) \<and> R (snd (then_do m f w1)) (snd (then_do m f w2))"
    using m eq u f by (cases r1) (simp_all add: then_do_apply)
qed

lemma compatible_try_except:
  assumes "compatible R m" and "\<And>e. compatible R (h e)"
  shows "compatible R (try_except m h)"
  unfolding compatible_def
proof (intro allI impI)
  fix w1 w2 assume r: "R w1 w2"
  obtain r1 u1 r2 u2 where m: "m w1 = (r1, u1)" "m w2 = (r2, u2)"
    by (metis surj_pair)
  from assms(1) r have "fst (m w1) = fst (m w2)" "R (snd (m w1)) (snd (m w2))"
    by (simp_all add: compatible_def)
  with m have eq: "r2 = r1" and u: "R u1 u2"
    by simp_all
  from assms(2) u have h: "\<And>e. fst (h e u1) = fst (h e u2) \<and> R (snd (h e u1)) (snd (h e u2))"
    by (simp add: compatible_def)
  show "fst (try_except m h w1) = fst (try_except m h w2) \<and> R (snd (try_except m h w1)) (snd (try_except m h w2))"
    using m eq u h by (cases r1) (simp_all add: try_apply)
qed

lemma compatible_if: "compatible R p \<Longrightarrow> compatible R q \<Longrightarrow> compatible R (if b then p else q)"
  by simp

lemma same_files_emit: "compatible same_files (emit e)"
  by (simp add: compatible_def same_files_def emit_def)
lemma same_files_read: "compatible same_files (read_file p)"
  by (simp add: compatible_def same_files_def read_file_def proc_simps split: fsentry.splits)

lemma same_but_emit: "compatible (same_but out) (emit e)"
  by (simp add: compatible_def same_but_def emit_def)
lemma same_but_read: "p \<noteq> out \<Longrightarrow> compatible (same_but out) (read_file p)"
  by (auto simp: compatible_def same_but_def read_file_def proc_simps split: fsentry.splits)
lemma same_but_write: "compatible (same_but out) (write_file out c)"
  by (auto simp: compatible_def same_but_def write_file_def split: fsentry.splits)

lemmas compatible_intros = compatible_ret compatible_raise compatible_exit compatible_lib
  compatible_then_do compatible_try_except compatible_if

lemma compatible_node: "compatible R (emit (NodeRequest q)) \<Longrightarrow> compatible R (node q r)"
  by (simp add: node_def compatible_then_do compatible_lib)

lemma compatible_load:
  assumes "\<And>e. compatible R (emit e)" "\<And>p. p \<in> {abi_path n, bytecode_path n} \<Longrightarrow> compatible R (read_file p)"
  shows "compatible R (load_contract_artifact env n)"
  unfolding load_contract_artifact_def print_def
  by (auto intro!: compatible_intros assms split: option.splits exn.splits)

lemma compatible_trace:
  assumes "\<And>e. compatible R (emit e)"
  shows "compatible R (trace_revert_reason env n h)"
  unfolding trace_revert_reason_def print_def node_def
  by (auto intro!: compatible_intros assms split: option.splits)

lemma compatible_deploy_contract:
  assumes "\<And>e. compatible R (emit e)"
  shows "compatible R (deploy_contract env acct n j b args)"
  unfolding deploy_contract_def print_def node_def
  by (auto intro!: compatible_intros compatible_trace assms)

lemma compatible_call_uint:
  assumes "\<And>e. compatible R (emit e)"
  shows "compatible R (call_uint env c f args)"
  unfolding call_uint_def node_def
  by (auto intro!: compatible_intros assms split: option.splits)

lemma compatible_call_address:
  assumes "\<And>e. compatible R (emit e)"
  shows "compatible R (call_address env c f args)"
  unfolding call_address_def node_def
  by (auto intro!: compatible_intros assms split: option.splits)

lemma compatible_deploy_MyToken:
  assumes "\<And>e. compatible R (emit e)" "\<And>n p. p \<in> {abi_path n, bytecode_path n} \<Longrightarrow> compatible R (read_file p)"
  shows "compatible R (deploy_MyToken env acct)"
  unfolding deploy_MyToken_def print_def
  by (auto intro!: compatible_intros compatible_load compatible_deploy_contract compatible_call_uint assms)

lemma compatible_deploy_dependent:
  assumes "\<And>e. compatible R (emit e)" "\<And>n p. p \<in> {abi_path n, bytecode_path n} \<Longrightarrow> compatible R (read_file p)"
  shows "compatible R (deploy_dependent env acct k n c)"
  unfolding deploy_dependent_def print_def
  by (auto intro!: compatible_intros compatible_load compatible_deploy_contract compatible_call_address assms)

lemma compatible_module_init:
  assumes "\<And>e. compatible R (emit e)"
  shows "compatible R (module_init env)"
  unfolding module_init_def print_def node_def
  by (auto intro!: compatible_intros assms split: list.splits)

lemma compatible_program:
  "compatible (same_but ''contract_addresses.json'') (program env)"
  unfolding program_def main_def save_addresses_def print_def
  by (auto intro!: compatible_intros compatible_module_init compatible_deploy_MyToken
        compatible_deploy_dependent same_but_emit same_but_read same_but_write)

lemma deploy_MyToken_same_files: "compatible same_files (deploy_MyToken env acct)"
  by (intro compatible_deploy_MyToken same_files_emit same_files_read)

subsection \<open>The successful path of each step\<close>

lemma then_do_Ok:
  "then_do m f w = (Ok y, w') \<longleftrightarrow> (\<exists>x w1. m w = (Ok x, w1) \<and> f x w1 = (Ok y, w'))"
  by (auto simp: then_do_apply split: prod.splits outcome.splits)

lemma then_do_stops:
  assumes "m w = (r1, w1)" and "\<forall>x. r1 \<noteq> Ok x"
  shows "snd (then_do m f w) = w1" and "\<forall>y. fst (then_do m f w) \<noteq> Ok y"
  using assms by (cases r1; simp add: then_do_apply)+

lemma deployment_requests_append [simp]:
  "deployment_requests (xs @ ys) = deployment_requests xs @ deployment_requests ys"
  by (induction xs rule: deployment_requests.induct) simp_all

lemma confirmed_append [simp]: "confirmed env (xs @ ys) = confirmed env xs @ confirmed env ys"
  by (induction env xs rule: confirmed.induct) (simp_all split: pyres.splits)

lemma writes_append [simp]: "writes (xs @ ys) = writes xs @ writes ys"
  by (induction xs rule: writes.induct) simp_all

lemma only_for_writes: "only_for n es \<Longrightarrow> writes es = []"
  by (induction es rule: writes.induct) (auto simp: only_for_def)

lemma only_for_request:
  "only_for n es \<Longrightarrow> NodeRequest q \<in> set es \<Longrightarrow> request_for q = Some m \<Longrightarrow> m = n"
  by (force simp: only_for_def)

lemma only_for_not_attempted: "only_for n es \<Longrightarrow> m \<noteq> n \<Longrightarrow> \<not> attempted m es"
  by (auto simp: only_for_def attempted_def list_ex_iff)

lemma module_init_Ok:
  "module_init env w = (Ok acct, w') \<longleftrightarrow>
     (\<exists>others v b c. eth_accounts env = Returns (acct # others) \<and> is_connected env \<and>
        client_version env = Returns v \<and> block_number env = Returns b \<and> chain_id env = Returns c \<and>
        w' = w\<lparr>events := events w @
          [NodeRequest Req_accounts, Console (Init Connecting), NodeRequest Req_is_connected,
           NodeRequest Req_client_version, Console (Init (Connected v)),
           Console (Init (UsingDeployer acct)), NodeRequest Req_block_number,
           Console (Init (CurrentBlock b)), NodeRequest Req_chain_id, Console (Init (ChainId c))]\<rparr>)"
  by (auto simp: module_init_def proc_simps split: pyres.splits list.splits)

lemma module_init_frame:
  assumes "module_init env w = (r, w')"
  shows "\<exists>es. w' = w\<lparr>events := events w @ es\<rparr> \<and> (\<forall>n. only_for n es)"
proof -
  from assms have "w' = w\<lparr>events := events w @ new_events w w'\<rparr> \<and> (\<forall>n. only_for n (new_events w w'))"
    by (auto simp: module_init_def proc_simps only_for_def split: pyres.splits list.splits if_splits)
  then show ?thesis by blast
qed

lemma deploy_contract_Ok_summary:
  assumes "deploy_contract env acct n j b args w = (Ok c, w')"
  shows "\<exists>es tx0 g h rc. w' = w\<lparr>events := events w @ es\<rparr> \<and>
     deployment_requests es =
       [Req_build_transaction n args acct, Req_estimate_gas n tx0,
        Req_send_transaction n (tx0\<lparr>gas := g + 100000\<rparr>), Req_wait_receipt n h] \<and>
     confirmed env es = [n] \<and> writes es = [] \<and>
     wait_for_transaction_receipt env h = Returns rc \<and> status rc \<noteq> 0 \<and>
     contract_at env (contractAddress rc) j = Returns c"
proof -
  from assms obtain tx0 g h rc where
    f: "wait_for_transaction_receipt env h = Returns rc" "status rc \<noteq> 0"
       "contract_at env (contractAddress rc) j = Returns c"
    and w': "w' = w\<lparr>events := events w @
          [Console (Deploy (AttemptDeploy n args)),
           NodeRequest (Req_build_transaction n args acct),
           NodeRequest (Req_estimate_gas n tx0),
           Console (Deploy (EstimatedGas g (g + 100000))),
           NodeRequest (Req_send_transaction n (tx0\<lparr>gas := g + 100000\<rparr>)),
           Console (Deploy (TxSent h)), Console (Deploy WaitingMined),
           NodeRequest (Req_wait_receipt n h),
           Console (Deploy (DeployedAt (contractAddress rc) (blockNumber rc)))]\<rparr>"
    unfolding deploy_contract_Ok by blast
  show ?thesis
    apply (rule exI, rule exI [of _ tx0], rule exI [of _ g], rule exI [of _ h], rule exI [of _ rc])
    apply (rule conjI, rule w')
    using f by simp
qed

lemma load_Ok_summary:
  assumes "load_contract_artifact env n w = (Ok x, w')"
  shows "\<exists>es. w' = w\<lparr>events := events w @ es\<rparr> \<and> deployment_requests es = [] \<and>
           confirmed env es = [] \<and> writes es = []"
proof -
  obtain j b where "x = (j, b)" by (cases x)
  with assms have "load_contract_artifact env n w = (Ok (j, b), w')" by simp
  then show ?thesis unfolding load_Ok by fastforce
qed



lemma deploy_MyToken_Ok:
  "deploy_MyToken env acct w = (Ok c, w') \<longleftrightarrow>
     (\<exists>s t j tx0 g h rc a supply bal.
        files w (abi_path ''MyToken'') = Text s \<and> json_load env s = Some j \<and>
        files w (bytecode_path ''MyToken'') = Text t \<and>
        contract_factory env j (strip t) = Returns () \<and>
        build_transaction env j (strip t) [PyInt initial_supply] acct = Returns tx0 \<and>
        estimate_gas env tx0 = Returns g \<and>
        send_transaction env (tx0\<lparr>gas := g + 100000\<rparr>) = Returns h \<and>
        wait_for_transaction_receipt env h = Returns rc \<and> status rc \<noteq> 0 \<and>
        contract_at env (contractAddress rc) j = Returns c \<and> address c = Some a \<and>
        eth_call_uint env a ''totalSupply'' [] = Returns supply \<and>
        eth_call_uint env a ''balanceOf'' [PyStr acct] = Returns bal \<and>
        w' = w\<lparr>events := events w @
          [Console (Main (Step 1 ''MyToken'')),
           Console (Load (LoadingArtifacts ''MyToken'')),
           Console (Load (AttemptAbi (abi_path ''MyToken''))),
           FileRead (abi_path ''MyToken''), Console (Load (AbiLoaded ''MyToken'')),
           Console (Load (AttemptBytecode (bytecode_path ''MyToken''))),
           FileRead (bytecode_path ''MyToken''),
           Console (Load (BytecodeLoaded ''MyToken'')),
           Console (Load (FinishedLoading ''MyToken'')),
           Console (Deploy (AttemptDeploy ''MyToken'' [PyInt initial_supply])),
           NodeRequest (Req_build_transaction ''MyToken'' [PyInt initial_supply] acct),
           NodeRequest (Req_estimate_gas ''MyToken'' tx0),
           Console (Deploy (EstimatedGas g (g + 100000))),
           NodeRequest (Req_send_transaction ''MyToken'' (tx0\<lparr>gas := g + 100000\<rparr>)),
           Console (Deploy (TxSent h)), Console (Deploy WaitingMined),
           NodeRequest (Req_wait_receipt ''MyToken'' h),
           Console (Deploy (DeployedAt (contractAddress rc) (blockNumber rc))),
           Console (Main (DeployedSuccessfully ''MyToken'' (Some a))),
           NodeRequest (Req_call (Some a) ''totalSupply'' []),
           Console (Main (TotalSupply (from_wei_ether supply))),
           NodeRequest (Req_call (Some a) ''balanceOf'' [PyStr acct]),
           Console (Main (DeployerBalance (from_wei_ether bal))),
           Sleep 1]\<rparr>)"
  by (auto simp: deploy_MyToken_def then_do_Ok load_Ok deploy_contract_Ok call_uint_Ok
        print_apply emit_apply ret_apply)

lemma deploy_dependent_Ok:
  "deploy_dependent env acct k n token w = (Ok c, w') \<longleftrightarrow>
     (\<exists>s t j tx0 g h rc a owner.
        files w (abi_path n) = Text s \<and> json_load env s = Some j \<and>
        files w (bytecode_path n) = Text t \<and>
        contract_factory env j (strip t) = Returns () \<and>
        build_transaction env j (strip t) [address_value token, PyStr acct] acct = Returns tx0 \<and>
        estimate_gas env tx0 = Returns g \<and>
        send_transaction env (tx0\<lparr>gas := g + 100000\<rparr>) = Returns h \<and>
        wait_for_transaction_receipt env h = Returns rc \<and> status rc \<noteq> 0 \<and>
        contract_at env (contractAddress rc) j = Returns c \<and> address c = Some a \<and>
        eth_call_address env a ''owner'' [] = Returns owner \<and>
        w' = w\<lparr>events := events w @
          [Console (Main (Step k n)),
           Console (Load (LoadingArtifacts n)),
           Console (Load (AttemptAbi (abi_path n))),
           FileRead (abi_path n), Console (Load (AbiLoaded n)),
           Console (Load (AttemptBytecode (bytecode_path n))),
           FileRead (bytecode_path n),
           Console (Load (BytecodeLoaded n)),
           Console (Load (FinishedLoading n)),
           Console (Deploy (AttemptDeploy n [address_value token, PyStr acct])),
           NodeRequest (Req_build_transaction n [address_value token, PyStr acct] acct),
           NodeRequest (Req_estimate_gas n tx0),
           Console (Deploy (EstimatedGas g (g + 100000))),
           NodeRequest (Req_send_transaction n (tx0\<lparr>gas := g + 100000\<rparr>)),
           Console (Deploy (TxSent h)), Console (Deploy WaitingMined),
           NodeRequest (Req_wait_receipt n h),
           Console (Deploy (DeployedAt (contractAddress rc) (blockNumber rc))),
           Console (Main (DeployedSuccessfully n (Some a))),
           NodeRequest (Req_call (Some a) ''owner'' []),
           Console (Main (OwnerIs n owner)),
           Sleep 1]\<rparr>)"
  by (auto simp: deploy_dependent_def then_do_Ok load_Ok deploy_contract_Ok call_address_Ok
        print_apply emit_apply ret_apply)

lemma save_addresses_Ok:
  "save_addresses env c1 c2 c3 w = (Ok u, w') \<longleftrightarrow>
     (\<forall>m. files w ''contract_addresses.json'' \<noteq> Inaccessible m) \<and>
     w' = w\<lparr>files := (files w)(''contract_addresses.json'' :=
               Text (json_dump env [(''MyToken'', address_value c1),
                 (''DataReview'', address_value c2), (''DataBundle'', address_value c3)])),
            events := events w @
              [Console (Main AllDeployed),
               Console (Main (AddressLine ''MyToken'' (address c1))),
               Console (Main (AddressLine ''DataReview'' (address c2))),
               Console (Main (AddressLine ''DataBundle'' (address c3))),
               FileWrite ''contract_addresses.json''
                 (json_dump env [(''MyToken'', address_value c1),
                   (''DataReview'', address_value c2), (''DataBundle'', address_value c3)]),
               Console (Main AddressesSaved), Console (Main ProcessFinished)]\<rparr>"
  by (auto simp: save_addresses_def write_file_def proc_simps split: fsentry.splits)

lemma save_addresses_not_Ok:
  assumes "save_addresses env c1 c2 c3 w = (r, w')" and "r \<noteq> Ok ()"
  shows "\<exists>es. w' = w\<lparr>events := events w @ es\<rparr> \<and> (\<forall>n. only_for n es)"
proof -
  from assms have "w' = w\<lparr>events := events w @ new_events w w'\<rparr> \<and> (\<forall>n. only_for n (new_events w w'))"
    by (auto simp: save_addresses_def write_file_def proc_simps only_for_def split: fsentry.splits)
  then show ?thesis by blast
qed

lemma program_Ok:
  "program env w = (Ok u, w') \<longleftrightarrow>
     (\<exists>acct w0 c1 w1 c2 w2 c3 w3.
        module_init env w = (Ok acct, w0) \<and>
        deploy_MyToken env acct (w0\<lparr>events := events w0 @ [Console (Main Starting)]\<rparr>) = (Ok c1, w1) \<and>
        deploy_dependent env acct 2 ''DataReview'' c1 w1 = (Ok c2, w2) \<and>
        deploy_dependent env acct 3 ''DataBundle'' c1 w2 = (Ok c3, w3) \<and>
        save_addresses env c1 c2 c3 w3 = (Ok u, w'))"
  by (simp add: program_def main_def then_do_Ok print_apply)

subsection \<open>The sample run\<close>

lemma sample_env_fields:
  "eth_accounts sample_env = Returns [''0xd0'', ''0xd1'']"
  "is_connected sample_env = True"
  "client_version sample_env = Returns ''Ganache''"
  "block_number sample_env = Returns 0"
  "chain_id sample_env = Returns 1337"
  "json_load sample_env = (\<lambda>s. if s = ''[]'' then Some (JArr []) else None)"
  "json_dump sample_env = sample_dump"
  "contract_factory sample_env = (\<lambda>_ _. Returns ())"
  "build_transaction sample_env = (\<lambda>_ bytecode _ sender.
        Returns \<lparr>tx_from = sender, tx_data = bytecode, gas = 0, tx_rest = []\<rparr>)"
  "estimate_gas sample_env = (\<lambda>_. Returns 500000)"
  "send_transaction sample_env = (\<lambda>tx. Returns (''0xh'' @ tx_data tx))"
  "wait_for_transaction_receipt sample_env = (\<lambda>h.
        Returns \<lparr>status = 1, contractAddress = Some (''0xc'' @ drop 3 h), blockNumber = 1\<rparr>)"
  "debug_traceTransaction sample_env = (\<lambda>_. Raises (LibraryError ''Method debug_traceTransaction not supported''))"
  "utf8_decode_ignore sample_env = map char_of"
  "normalize_address sample_env = Returns"
  "eth_call_uint sample_env = (\<lambda>_ _ _. Returns (1000000 * 10 ^ 18))"
  "eth_call_address sample_env = (\<lambda>_ _ _. Returns ''0xd0'')"
  by (simp_all add: sample_env_def)

lemma sample_files_at:
  "sample_files ''build/MyToken.json'' = Text ''[]''"
  "sample_files ''build/DataReview.json'' = Text ''[]''"
  "sample_files ''build/DataBundle.json'' = Text ''[]''"
  "sample_files ''build/MyToken.bin'' = Text ''a0''"
  "sample_files ''build/DataReview.bin'' = Text ''b0''"
  "sample_files ''build/DataBundle.bin'' = Text ''c0''"
  "sample_files ''contract_addresses.json'' = NoFile"
  by (simp_all add: sample_files_def)

lemmas eval_simps = proc_simps run_def program_def module_init_def main_def deploy_MyToken_def
  deploy_dependent_def save_addresses_def write_file_def load_contract_artifact_def read_file_def
  deploy_contract_def trace_revert_reason_def abi_path_def bytecode_path_def
  call_uint_def call_address_def contract_at_def address_value_def initial_supply_def
  from_wei_ether_def strip_def py_isspace_def sample_dump_def truthy_def

lemma sample_run_result:
  assumes "fs ''build/MyToken.json'' = Text ''[]''" "fs ''build/DataReview.json'' = Text ''[]''"
    "fs ''build/DataBundle.json'' = Text ''[]''" "fs ''build/MyToken.bin'' = Text ''a0''"
    "fs ''build/DataReview.bin'' = Text ''b0''" "fs ''build/DataBundle.bin'' = Text ''c0''"
    "\<forall>m. fs ''contract_addresses.json'' \<noteq> Inaccessible m"
  shows "\<exists>es. run sample_env fs =
           (Ok (), \<lparr>files = fs(''contract_addresses.json'' :=
                       Text ''MyToken=0xca0;DataReview=0xcb0;DataBundle=0xcc0;''),
                    events = es\<rparr>)"
  using assms by (simp add: eval_simps sample_env_fields split: fsentry.splits)

lemma sample_run:
  assumes "fs ''build/MyToken.json'' = Text ''[]''" "fs ''build/DataReview.json'' = Text ''[]''"
    "fs ''build/DataBundle.json'' = Text ''[]''" "fs ''build/MyToken.bin'' = Text ''a0''"
    "fs ''build/DataReview.bin'' = Text ''b0''" "fs ''build/DataBundle.bin'' = Text ''c0''"
    "\<forall>m. fs ''contract_addresses.json'' \<noteq> Inaccessible m"
  shows "fst (run sample_env fs) = Ok ()"
    and "files (snd (run sample_env fs)) =
           fs(''contract_addresses.json'' := Text ''MyToken=0xca0;DataReview=0xcb0;DataBundle=0xcc0;'')"
  using sample_run_result [OF assms] by auto

section \<open>The claims\<close>

text \<open>
  C7. For every deployment, the gas limit placed on the submitted creation transaction
  equals the estimated cost plus exactly 100,000: whenever \<^verbatim>\<open>deploy_contract\<close> submits a
  transaction \<open>tx\<close>, it is the transaction \<open>tx0\<close> that \<^verbatim>\<open>build_transaction\<close> returned with its
  gas field set to \<open>g + 100000\<close>, where \<open>g\<close> is the answer of \<^verbatim>\<open>estimate_gas\<close> for \<open>tx0\<close>.
\<close>

theorem C7_gas_limit:
  assumes "NodeRequest (Req_send_transaction m tx)
             \<in> set (new_events w (snd (deploy_contract env acct n j b args w)))"
  shows "\<exists>tx0 g. build_transaction env j b args acct = Returns tx0 \<and>
           estimate_gas env tx0 = Returns g \<and>
           tx = tx0\<lparr>gas := g + 100000\<rparr> \<and> gas tx = g + 100000 \<and> m = n"
proof -
  obtain r w' where run: "deploy_contract env acct n j b args w = (r, w')"
    by (metis surj_pair)
  with assms have "NodeRequest (Req_send_transaction m tx) \<in> set (new_events w w')"
    by simp
  with run show ?thesis
    by (auto simp: deploy_contract_def proc_simps new_events_def
          split: pyres.splits if_splits prod.splits outcome.splits
          dest!: trace_revert_reason_frame)
qed

text \<open>The sample node: the estimate is 500000, the submitted limit 600000.\<close>

theorem C7_gas_limit_witness:
  "NodeRequest (Req_send_transaction ''MyToken''
       \<lparr>tx_from = ''0xd0'', tx_data = ''a0'', gas = 600000, tx_rest = []\<rparr>)
     \<in> set (new_events \<lparr>files = sample_files, events = []\<rparr>
          (snd (deploy_contract sample_env ''0xd0'' ''MyToken'' (JArr []) ''a0'' [PyInt initial_supply]
             \<lparr>files = sample_files, events = []\<rparr>))) \<and>
   (\<exists>tx0 g. build_transaction sample_env (JArr []) ''a0'' [PyInt initial_supply] ''0xd0'' = Returns tx0 \<and>
      estimate_gas sample_env tx0 = Returns g \<and>
      \<lparr>tx_from = ''0xd0'', tx_data = ''a0'', gas = 600000, tx_rest = []\<rparr> = tx0\<lparr>gas := g + 100000\<rparr> \<and>
      gas \<lparr>tx_from = ''0xd0'', tx_data = ''a0'', gas = 600000, tx_rest = []\<rparr> = g + 100000 \<and>
      ''MyToken'' = ''MyToken'')"
proof -
  have h: "NodeRequest (Req_send_transaction ''MyToken''
       \<lparr>tx_from = ''0xd0'', tx_data = ''a0'', gas = 600000, tx_rest = []\<rparr>)
     \<in> set (new_events \<lparr>files = sample_files, events = []\<rparr>
          (snd (deploy_contract sample_env ''0xd0'' ''MyToken'' (JArr []) ''a0'' [PyInt initial_supply]
             \<lparr>files = sample_files, events = []\<rparr>)))"
    by (simp add: eval_simps sample_env_fields new_events_def)
  from h C7_gas_limit [OF h] show ?thesis by blast
qed

subsection \<open>A reverted deployment\<close>

lemma reverting_env_fields:
  "contract_factory (reverting_env t) = (\<lambda>_ _. Returns ())"
  "build_transaction (reverting_env t) = (\<lambda>_ bytecode _ sender.
        Returns \<lparr>tx_from = sender, tx_data = bytecode, gas = 0, tx_rest = []\<rparr>)"
  "estimate_gas (reverting_env t) = (\<lambda>_. Returns 500000)"
  "send_transaction (reverting_env t) = (\<lambda>tx. Returns (''0xh'' @ tx_data tx))"
  "wait_for_transaction_receipt (reverting_env t) = (\<lambda>_.
        Returns \<lparr>status = 0, contractAddress = None, blockNumber = 1\<rparr>)"
  "debug_traceTransaction (reverting_env t) = (\<lambda>_. t)"
  "utf8_decode_ignore (reverting_env t) = map char_of"
  by (simp_all add: reverting_env_def sample_env_def)


lemma trace_revert_reason_events:
  "trace_revert_reason env n h w =
     (Ok (), w\<lparr>events := events w @ NodeRequest (Req_trace n h) #
        (case debug_traceTransaction env h of
           Raises e \<Rightarrow> [Console (Deploy (CouldNotTrace e))]
         | Returns t \<Rightarrow>
             if truthy (returnValue t) then
               if take 10 (the (returnValue t)) = ''0x08c379a0'' then
                 (case fromhex (drop 10 (the (returnValue t))) of
                    None \<Rightarrow> [Console (Deploy (CouldNotTrace ValueError))]
                  | Some bs \<Rightarrow> [Console (Deploy (RevertReason (strip_nul (utf8_decode_ignore env bs))))])
               else [Console (Deploy (RawRevertData (the (returnValue t))))]
             else (case trace_error t of
                     Some (Some m) \<Rightarrow> [Console (Deploy (TraceErrorMessage m))]
                   | _ \<Rightarrow> []))\<rparr>)"
  by (auto simp: trace_revert_reason_def proc_simps split: pyres.splits option.splits)

lemma deploy_contract_reverted:
  assumes "contract_factory env j b = Returns ()"
    and "build_transaction env j b args acct = Returns tx0"
    and "estimate_gas env tx0 = Returns g"
    and "send_transaction env (tx0\<lparr>gas := g + 100000\<rparr>) = Returns h"
    and "wait_for_transaction_receipt env h = Returns rc"
    and "status rc = 0"
  shows "\<exists>pre ds. deploy_contract env acct n j b args w =
           (SystemExit (Some 1),
            w\<lparr>events := events w @ pre @ NodeRequest (Req_trace n h) # ds @
                           [Console (Deploy (FatalError DeploymentReverted))]\<rparr>) \<and>
         trace_revert_reason env n h (w\<lparr>events := events w @ pre\<rparr>) =
           (Ok (), w\<lparr>events := events w @ pre @ NodeRequest (Req_trace n h) # ds\<rparr>)"
proof -
  let ?pre = "[Console (Deploy (AttemptDeploy n args)),
           NodeRequest (Req_build_transaction n args acct),
           NodeRequest (Req_estimate_gas n tx0),
           Console (Deploy (EstimatedGas g (g + 100000))),
           NodeRequest (Req_send_transaction n (tx0\<lparr>gas := g + 100000\<rparr>)),
           Console (Deploy (TxSent h)), Console (Deploy WaitingMined),
           NodeRequest (Req_wait_receipt n h),
           Console (Deploy (TxReverted h)), Console (Deploy (ShowReceipt rc))]"
  obtain ds where t: "trace_revert_reason env n h (w\<lparr>events := events w @ ?pre\<rparr>) =
           (Ok (), w\<lparr>events := events w @ ?pre @ NodeRequest (Req_trace n h) # ds\<rparr>)"
    using trace_revert_reason_events [of env n h "w\<lparr>events := events w @ ?pre\<rparr>"] by simp
  have "deploy_contract env acct n j b args w =
           (SystemExit (Some 1),
            w\<lparr>events := events w @ ?pre @ NodeRequest (Req_trace n h) # ds @
                           [Console (Deploy (FatalError DeploymentReverted))]\<rparr>)"
    using assms t by (simp add: deploy_contract_def proc_simps)
  with t show ?thesis by blast
qed

text \<open>
  C3. When the receipt of a deployment transaction has status 0, \<^verbatim>\<open>deploy_contract\<close>
  makes the diagnostic trace request. If the returned payload starts with the
  \<^verbatim>\<open>Error(string)\<close> selector \<^verbatim>\<open>0x08c379a0\<close> and the rest is hexadecimal, the decoded revert
  reason is printed; a non-empty payload without the selector is printed raw; without a
  payload, the trace's error message is printed if there is one. If the trace request
  raises, or the payload after the selector is not hexadecimal, the exception is printed
  and goes no further. In every one of these cases the last line printed is the fatal
  error for the revert, and the process exits with status 1.
\<close>

theorem C3_revert_diagnostics:
  fixes env acct n j b args w
  defines "r \<equiv> fst (deploy_contract env acct n j b args w)"
    and "es \<equiv> new_events w (snd (deploy_contract env acct n j b args w))"
  assumes "contract_factory env j b = Returns ()"
    and "build_transaction env j b args acct = Returns tx0"
    and "estimate_gas env tx0 = Returns g"
    and "send_transaction env (tx0\<lparr>gas := g + 100000\<rparr>) = Returns h"
    and "wait_for_transaction_receipt env h = Returns rc"
    and "status rc = 0"
  shows "NodeRequest (Req_trace n h) \<in> set es \<and>
     (\<forall>t rv bs. debug_traceTransaction env h = Returns t \<and> returnValue t = Some rv \<and>
        take 10 rv = ''0x08c379a0'' \<and> fromhex (drop 10 rv) = Some bs \<longrightarrow>
        Console (Deploy (RevertReason (strip_nul (utf8_decode_ignore env bs)))) \<in> set es) \<and>
     (\<forall>t rv. debug_traceTransaction env h = Returns t \<and> returnValue t = Some rv \<and>
        rv \<noteq> [] \<and> take 10 rv \<noteq> ''0x08c379a0'' \<longrightarrow>
        Console (Deploy (RawRevertData rv)) \<in> set es) \<and>
     (\<forall>t m. debug_traceTransaction env h = Returns t \<and> \<not> truthy (returnValue t) \<and>
        trace_error t = Some (Some m) \<longrightarrow>
        Console (Deploy (TraceErrorMessage m)) \<in> set es) \<and>
     (\<forall>e. debug_traceTransaction env h = Raises e \<longrightarrow>
        Console (Deploy (CouldNotTrace e)) \<in> set es) \<and>
     (\<forall>t rv. debug_traceTransaction env h = Returns t \<and> returnValue t = Some rv \<and>
        take 10 rv = ''0x08c379a0'' \<and> fromhex (drop 10 rv) = None \<longrightarrow>
        Console (Deploy (CouldNotTrace ValueError)) \<in> set es) \<and>
     last es = Console (Deploy (FatalError DeploymentReverted)) \<and>
     r = SystemExit (Some 1) \<and> exit_status r \<noteq> 0"
proof -
  from deploy_contract_reverted [OF assms(3-), of n w] obtain pre ds where
    d: "deploy_contract env acct n j b args w =
           (SystemExit (Some 1),
            w\<lparr>events := events w @ pre @ NodeRequest (Req_trace n h) # ds @
                           [Console (Deploy (FatalError DeploymentReverted))]\<rparr>)"
    and t: "trace_revert_reason env n h (w\<lparr>events := events w @ pre\<rparr>) =
           (Ok (), w\<lparr>events := events w @ pre @ NodeRequest (Req_trace n h) # ds\<rparr>)"
    by blast
  from d have es: "es = pre @ NodeRequest (Req_trace n h) # ds @ [Console (Deploy (FatalError DeploymentReverted))]"
    and r: "r = SystemExit (Some 1)"
    by (simp_all add: es_def r_def)
  from t have "events (snd (trace_revert_reason env n h (w\<lparr>events := events w @ pre\<rparr>))) =
      events w @ pre @ NodeRequest (Req_trace n h) # ds"
    by simp
  then have ds: "ds = (case debug_traceTransaction env h of
           Raises e \<Rightarrow> [Console (Deploy (CouldNotTrace e))]
         | Returns t \<Rightarrow>
             if truthy (returnValue t) then
               if take 10 (the (returnValue t)) = ''0x08c379a0'' then
                 (case fromhex (drop 10 (the (returnValue t))) of
                    None \<Rightarrow> [Console (Deploy (CouldNotTrace ValueError))]
                  | Some bs \<Rightarrow> [Console (Deploy (RevertReason (strip_nul (utf8_decode_ignore env bs))))])
               else [Console (Deploy (RawRevertData (the (returnValue t))))]
             else (case trace_error t of
                     Some (Some m) \<Rightarrow> [Console (Deploy (TraceErrorMessage m))]
                   | _ \<Rightarrow> []))"
    unfolding trace_revert_reason_events by simp
  show ?thesis
    unfolding es r
    by (cases "debug_traceTransaction env h") (auto simp: ds truthy_def)
qed


text \<open>
  Four reverted deployments on the sample node: a payload with the selector (decoded to
  \<open>No\<close>), a payload without it, an error message, and a trace request that raises.
\<close>

theorem C3_revert_diagnostics_witness:
  "fst (deploy_contract
          (reverting_env (Returns \<lparr>returnValue = Some ''0x08c379a04e6f'', trace_error = None\<rparr>))
          ''0xd0'' ''MyToken'' (JArr []) ''a0'' [PyInt initial_supply]
          \<lparr>files = sample_files, events = []\<rparr>) = SystemExit (Some 1) \<and>
   Console (Deploy (RevertReason ''No''))
     \<in> set (new_events \<lparr>files = sample_files, events = []\<rparr>
          (snd (deploy_contract
             (reverting_env (Returns \<lparr>returnValue = Some ''0x08c379a04e6f'', trace_error = None\<rparr>))
             ''0xd0'' ''MyToken'' (JArr []) ''a0'' [PyInt initial_supply]
             \<lparr>files = sample_files, events = []\<rparr>))) \<and>
   Console (Deploy (RawRevertData ''0x4e6f''))
     \<in> set (new_events \<lparr>files = sample_files, events = []\<rparr>
          (snd (deploy_contract
             (reverting_env (Returns \<lparr>returnValue = Some ''0x4e6f'', trace_error = None\<rparr>))
             ''0xd0'' ''MyToken'' (JArr []) ''a0'' [PyInt initial_supply]
             \<lparr>files = sample_files, events = []\<rparr>))) \<and>
   Console (Deploy (TraceErrorMessage ''revert''))
     \<in> set (new_events \<lparr>files = sample_files, events = []\<rparr>
          (snd (deploy_contract
             (reverting_env (Returns \<lparr>returnValue = None, trace_error = Some (Some ''revert'')\<rparr>))
             ''0xd0'' ''MyToken'' (JArr []) ''a0'' [PyInt initial_supply]
             \<lparr>files = sample_files, events = []\<rparr>))) \<and>
   Console (Deploy (CouldNotTrace (LibraryError ''unsupported'')))
     \<in> set (new_events \<lparr>files = sample_files, events = []\<rparr>
          (snd (deploy_contract
             (reverting_env (Raises (LibraryError ''unsupported'')))
             ''0xd0'' ''MyToken'' (JArr []) ''a0'' [PyInt initial_supply]
             \<lparr>files = sample_files, events = []\<rparr>)))"
proof -
  have f: "fromhex ''4e6f'' = Some [78, 111]"
    by (simp add: hex_digit_def ascii_space_def)
  have s: "strip_nul [char_of (78::nat), char_of (111::nat)] = ''No''"
    by code_simp
  note pre = reverting_env_fields(1) [THEN fun_cong, THEN fun_cong]
    reverting_env_fields(2) [THEN fun_cong, THEN fun_cong, THEN fun_cong, THEN fun_cong]
    reverting_env_fields(3) [THEN fun_cong]
    reverting_env_fields(4) [THEN fun_cong]
    reverting_env_fields(5) [THEN fun_cong]
  have st: "status \<lparr>status = 0, contractAddress = None, blockNumber = 1\<rparr> = 0"
    by simp
  show ?thesis
    using
      C3_revert_diagnostics [where env = "reverting_env (Returns \<lparr>returnValue = Some ''0x08c379a04e6f'', trace_error = None\<rparr>)"
        and acct = "''0xd0''" and n = "''MyToken''" and j = "JArr []" and b = "''a0''"
        and args = "[PyInt initial_supply]" and w = "\<lparr>files = sample_files, events = []\<rparr>",
        OF pre st]
      C3_revert_diagnostics [where env = "reverting_env (Returns \<lparr>returnValue = Some ''0x4e6f'', trace_error = None\<rparr>)"
        and acct = "''0xd0''" and n = "''MyToken''" and j = "JArr []" and b = "''a0''"
        and args = "[PyInt initial_supply]" and w = "\<lparr>files = sample_files, events = []\<rparr>",
        OF pre st]
      C3_revert_diagnostics [where env = "reverting_env (Returns \<lparr>returnValue = None, trace_error = Some (Some ''revert'')\<rparr>)"
        and acct = "''0xd0''" and n = "''MyToken''" and j = "JArr []" and b = "''a0''"
        and args = "[PyInt initial_supply]" and w = "\<lparr>files = sample_files, events = []\<rparr>",
        OF pre st]
      C3_revert_diagnostics [where env = "reverting_env (Raises (LibraryError ''unsupported''))"
        and acct = "''0xd0''" and n = "''MyToken''" and j = "JArr []" and b = "''a0''"
        and args = "[PyInt initial_supply]" and w = "\<lparr>files = sample_files, events = []\<rparr>",
        OF pre st]
    by (simp add: reverting_env_fields f s truthy_def del: fromhex.simps)
qed


subsection \<open>The connection guard\<close>

text \<open>
  C10, as stated, fails: a node that answers the account list and then reports that it
  is not connected makes the guard's branch run, and the process exits through it.
\<close>

theorem C10_counterexample:
  "run (sample_env\<lparr>is_connected := False\<rparr>) sample_files =
     (SystemExit None,
      \<lparr>files = sample_files,
       events = [NodeRequest Req_accounts, Console (Init Connecting),
                 NodeRequest Req_is_connected, Console (Init NotConnected)]\<rparr>)"
  by (simp add: run_def program_def module_init_def proc_simps sample_env_fields)

text \<open>
  C10, amended. The account list is read before the connectivity check: when reading it
  raises, the process fails with that exception right there, before the check is made
  and without the guard's message. The guard's branch (message, then \<^verbatim>\<open>exit()\<close>) runs in
  exactly the executions in which the account list was read, was not empty, and
  \<^verbatim>\<open>is_connected()\<close> then answered false.
\<close>

theorem C10_accounts_before_guard:
  "(\<forall>e. eth_accounts env = Raises e \<longrightarrow>
       module_init env w = (Exc e, w\<lparr>events := events w @ [NodeRequest Req_accounts]\<rparr>)) \<and>
   (Console (Init NotConnected) \<in> set (new_events w (snd (module_init env w))) \<longleftrightarrow>
       (\<exists>a others. eth_accounts env = Returns (a # others)) \<and> \<not> is_connected env) \<and>
   ((\<exists>a others. eth_accounts env = Returns (a # others)) \<and> \<not> is_connected env \<longrightarrow>
       module_init env w =
         (SystemExit None,
          w\<lparr>events := events w @
             [NodeRequest Req_accounts, Console (Init Connecting),
              NodeRequest Req_is_connected, Console (Init NotConnected)]\<rparr>))"
  by (auto simp: module_init_def proc_simps new_events_def split: pyres.splits list.splits)

text \<open>The sample node with the account list unreachable.\<close>

theorem C10_accounts_before_guard_witness:
  "eth_accounts (sample_env\<lparr>eth_accounts := Raises (LibraryError ''Connection refused'')\<rparr>)
     = Raises (LibraryError ''Connection refused'') \<and>
   module_init (sample_env\<lparr>eth_accounts := Raises (LibraryError ''Connection refused'')\<rparr>)
       \<lparr>files = sample_files, events = []\<rparr> =
     (Exc (LibraryError ''Connection refused''),
      \<lparr>files = sample_files, events = [NodeRequest Req_accounts]\<rparr>) \<and>
   Console (Init NotConnected) \<notin> set (new_events \<lparr>files = sample_files, events = []\<rparr>
     (snd (module_init (sample_env\<lparr>eth_accounts := Raises (LibraryError ''Connection refused'')\<rparr>)
        \<lparr>files = sample_files, events = []\<rparr>)))"
  using C10_accounts_before_guard
    [of "sample_env\<lparr>eth_accounts := Raises (LibraryError ''Connection refused'')\<rparr>"
        "\<lparr>files = sample_files, events = []\<rparr>"]
  by (simp add: new_events_def)

subsection \<open>Exit status of a failed artifact load\<close>

text \<open>
  C2. Every error is reported and ends the process with a non-zero exit status. The
  code does not do this for a missing artifact: with an empty build directory the run
  reports the missing file and ends through \<^verbatim>\<open>exit()\<close>, whose exit status is 0.
\<close>

theorem C2_missing_artifact_exits_with_status_0:
  "run sample_env (\<lambda>_. NoFile) =
     (SystemExit None,
      \<lparr>files = (\<lambda>_. NoFile),
       events =
         [NodeRequest Req_accounts, Console (Init Connecting), NodeRequest Req_is_connected,
          NodeRequest Req_client_version, Console (Init (Connected ''Ganache'')),
          Console (Init (UsingDeployer ''0xd0'')), NodeRequest Req_block_number,
          Console (Init (CurrentBlock 0)), NodeRequest Req_chain_id, Console (Init (ChainId 1337)),
          Console (Main Starting), Console (Main (Step 1 ''MyToken'')),
          Console (Load (LoadingArtifacts ''MyToken'')),
          Console (Load (AttemptAbi ''build/MyToken.json'')),
          FileRead ''build/MyToken.json'',
          Console (Load (AbiNotFound ''build/MyToken.json'')),
          Console (Load HintCompileAbi)]\<rparr>) \<and>
   exit_status (fst (run sample_env (\<lambda>_. NoFile))) = 0"
  by (simp add: run_def program_def main_def deploy_MyToken_def load_contract_artifact_def
        read_file_def module_init_def abi_path_def proc_simps sample_env_fields)

subsection \<open>The routes of the static-file server\<close>

text \<open>
  C9, as stated, fails: the application object made by \<^verbatim>\<open>FastAPI()\<close> also answers
  \<^verbatim>\<open>GET /docs\<close>, and its routing table is not the two routes alone.
\<close>

theorem C9_counterexample:
  "exposed (app FastAPI_default_routes) GET ''/docs'' \<and>
   routes (app FastAPI_default_routes) \<noteq>
     [Mount ''/visualisation'' (StaticFiles ''visualisation'') ''visualisation'',
      Route ''/'' [GET] Read_root]"
  by (simp add: exposed_def app_def get_def mount_def FastAPI_def FastAPI_default_routes_def)

text \<open>
  C9, amended. The script adds exactly two routes to those the framework's constructor
  installs: the mount of the static directory at \<^verbatim>\<open>/visualisation\<close>, and \<^verbatim>\<open>GET /\<close>, which
  returns the file \<^verbatim>\<open>visualisation/marketplace_visualiser.html\<close> with the media type
  \<^verbatim>\<open>text/html\<close>. A request is taken by the application exactly when the framework's own
  routes take it, or its path lies below \<^verbatim>\<open>/visualisation/\<close>, or it is \<^verbatim>\<open>GET /\<close>.
\<close>

theorem C9_registered_routes:
  "routes (app fw) =
     fw @ [Mount ''/visualisation'' (StaticFiles ''visualisation'') ''visualisation'',
           Route ''/'' [GET] Read_root] \<and>
   read_root = FileResponse ''visualisation/marketplace_visualiser.html'' ''text/html'' \<and>
   (exposed (app fw) m q \<longleftrightarrow>
      exposed (FastAPI fw) m q \<or> take 15 q = ''/visualisation/'' \<or> (m = GET \<and> q = ''/''))"
  by (auto simp: exposed_def app_def get_def mount_def FastAPI_def STATIC_DIR_def read_root_def
        os_path_join_def eval_nat_numeral)

subsection \<open>Missing artifacts\<close>

lemma only_for_all_request:
  assumes "\<forall>m. only_for m es" and "NodeRequest q \<in> set es"
  shows "request_for q \<noteq> Some n"
proof
  assume "request_for q = Some n"
  with assms have "n = CHR ''x'' # n"
    using only_for_request [of "CHR ''x'' # n" es q n] by simp
  then show False by simp
qed

lemma load_missing:
  assumes "load_contract_artifact env n w = (r, w')"
    and "files w (abi_path n) = NoFile \<or> files w (bytecode_path n) = NoFile"
  shows "(\<forall>x. r \<noteq> Ok x) \<and> (\<exists>es. w' = w\<lparr>events := events w @ es\<rparr> \<and> (\<forall>q. NodeRequest q \<notin> set es))"
proof -
  from assms(1) have "\<exists>es. w' = w\<lparr>events := events w @ es\<rparr> \<and> (\<forall>q. NodeRequest q \<notin> set es)"
    using load_only_for by blast
  moreover from assms have "\<forall>x. r \<noteq> Ok x"
    by (auto simp: load_contract_artifact_def read_file_def proc_simps
           split: fsentry.splits option.splits)
  ultimately show ?thesis by blast
qed

lemma deploy_MyToken_missing:
  assumes "deploy_MyToken env acct w = (r, w')"
    and "files w (abi_path ''MyToken'') = NoFile \<or> files w (bytecode_path ''MyToken'') = NoFile"
  shows "(\<forall>c. r \<noteq> Ok c) \<and> (\<exists>es. w' = w\<lparr>events := events w @ es\<rparr> \<and> (\<forall>q. NodeRequest q \<notin> set es))"
proof -
  from assms have "(\<forall>c. r \<noteq> Ok c) \<and> w' = w\<lparr>events := events w @ new_events w w'\<rparr> \<and>
      (\<forall>q. NodeRequest q \<notin> set (new_events w w'))"
    by (auto simp: deploy_MyToken_def proc_simps split: prod.splits outcome.splits
          dest!: load_missing)
  then show ?thesis by blast
qed

lemma deploy_dependent_missing:
  assumes "deploy_dependent env acct k n c w = (r, w')"
    and "files w (abi_path n) = NoFile \<or> files w (bytecode_path n) = NoFile"
  shows "(\<forall>c. r \<noteq> Ok c) \<and> (\<exists>es. w' = w\<lparr>events := events w @ es\<rparr> \<and> (\<forall>q. NodeRequest q \<notin> set es))"
proof -
  from assms have "(\<forall>c. r \<noteq> Ok c) \<and> w' = w\<lparr>events := events w @ new_events w w'\<rparr> \<and>
      (\<forall>q. NodeRequest q \<notin> set (new_events w w'))"
    by (auto simp: deploy_dependent_def proc_simps split: prod.splits outcome.splits
          dest!: load_missing)
  then show ?thesis by blast
qed


lemma deploy_MyToken_stage:
  assumes "deploy_MyToken env acct w = (r, w')"
  shows "\<exists>es. w' = w\<lparr>events := events w @ es\<rparr> \<and> only_for ''MyToken'' es \<and>
     (files w (abi_path ''MyToken'') = NoFile \<or> files w (bytecode_path ''MyToken'') = NoFile \<longrightarrow>
        (\<forall>c. r \<noteq> Ok c) \<and> (\<forall>q. NodeRequest q \<notin> set es))"
proof -
  from deploy_MyToken_only_for [OF assms] obtain es where
    es: "w' = w\<lparr>events := events w @ es\<rparr>" "only_for ''MyToken'' es" by blast
  then have n: "new_events w w' = es" by simp
  have "files w (abi_path ''MyToken'') = NoFile \<or> files w (bytecode_path ''MyToken'') = NoFile \<longrightarrow>
        (\<forall>c. r \<noteq> Ok c) \<and> (\<forall>q. NodeRequest q \<notin> set es)"
  proof
    assume "files w (abi_path ''MyToken'') = NoFile \<or> files w (bytecode_path ''MyToken'') = NoFile"
    from deploy_MyToken_missing [OF assms this] obtain es' where
      "\<forall>c. r \<noteq> Ok c" "w' = w\<lparr>events := events w @ es'\<rparr>" "\<forall>q. NodeRequest q \<notin> set es'"
      by blast
    moreover then have "new_events w w' = es'" by simp
    ultimately show "(\<forall>c. r \<noteq> Ok c) \<and> (\<forall>q. NodeRequest q \<notin> set es)"
      using n by simp
  qed
  with es show ?thesis by blast
qed

lemma deploy_dependent_stage:
  assumes "deploy_dependent env acct k n c w = (r, w')"
  shows "\<exists>es. w' = w\<lparr>events := events w @ es\<rparr> \<and> only_for n es \<and>
     (files w (abi_path n) = NoFile \<or> files w (bytecode_path n) = NoFile \<longrightarrow>
        (\<forall>c. r \<noteq> Ok c) \<and> (\<forall>q. NodeRequest q \<notin> set es))"
proof -
  from deploy_dependent_only_for [OF assms] obtain es where
    es: "w' = w\<lparr>events := events w @ es\<rparr>" "only_for n es" by blast
  then have n: "new_events w w' = es" by simp
  have "files w (abi_path n) = NoFile \<or> files w (bytecode_path n) = NoFile \<longrightarrow>
        (\<forall>c. r \<noteq> Ok c) \<and> (\<forall>q. NodeRequest q \<notin> set es)"
  proof
    assume "files w (abi_path n) = NoFile \<or> files w (bytecode_path n) = NoFile"
    from deploy_dependent_missing [OF assms this] obtain es' where
      "\<forall>c. r \<noteq> Ok c" "w' = w\<lparr>events := events w @ es'\<rparr>" "\<forall>q. NodeRequest q \<notin> set es'"
      by blast
    moreover then have "new_events w w' = es'" by simp
    ultimately show "(\<forall>c. r \<noteq> Ok c) \<and> (\<forall>q. NodeRequest q \<notin> set es)"
      using n by simp
  qed
  with es show ?thesis by blast
qed

lemma program_missing:
  assumes "program env w = (r, w')"
    and "n \<in> {''MyToken'', ''DataReview'', ''DataBundle''}"
    and "files w (abi_path n) = NoFile \<or> files w (bytecode_path n) = NoFile"
  shows "r \<noteq> Ok () \<and> (\<forall>q. NodeRequest q \<in> set (new_events w w') \<longrightarrow> request_for q \<noteq> Some n)"
  using assms
  by (auto simp: program_def main_def proc_simps split: prod.splits outcome.splits
        dest!: module_init_frame deploy_MyToken_stage deploy_dependent_stage
        dest: only_for_request only_for_all_request)


lemma load_reads_once:
  assumes "load_contract_artifact env n w = (r, w')"
  shows "count_list (new_events w w') (FileRead (abi_path n)) \<le> 1 \<and>
         count_list (new_events w w') (FileRead (bytecode_path n)) \<le> 1"
  using assms
  by (auto simp: load_contract_artifact_def read_file_def proc_simps
        split: fsentry.splits option.splits)

lemma deployment_requests_set:
  "q \<in> set (deployment_requests es) \<Longrightarrow> NodeRequest q \<in> set es"
  by (induction es rule: deployment_requests.induct) (auto split: if_splits)

text \<open>
  C6. \<^verbatim>\<open>load_contract_artifact\<close> reports the error and ends the process (through
  \<^verbatim>\<open>exit()\<close>) when the descriptor file is missing, when the descriptor is not valid JSON,
  and when the bytecode file is missing. It does not retry: each of the two files is
  opened at most once. For a contract of the sequence whose descriptor or bytecode file
  is missing, the run never completes and its history holds no node request of that
  contract's deployment.
\<close>

theorem C6_artifact_load_failures:
  "(files w (abi_path n) = NoFile \<longrightarrow>
      fst (load_contract_artifact env n w) = SystemExit None \<and>
      Console (Load (AbiNotFound (abi_path n)))
        \<in> set (new_events w (snd (load_contract_artifact env n w)))) \<and>
   (\<forall>s. files w (abi_path n) = Text s \<and> json_load env s = None \<longrightarrow>
      fst (load_contract_artifact env n w) = SystemExit None \<and>
      Console (Load (AbiNotJson (abi_path n)))
        \<in> set (new_events w (snd (load_contract_artifact env n w)))) \<and>
   (\<forall>s j. files w (abi_path n) = Text s \<and> json_load env s = Some j \<and>
           files w (bytecode_path n) = NoFile \<longrightarrow>
      fst (load_contract_artifact env n w) = SystemExit None \<and>
      Console (Load (BytecodeNotFound (bytecode_path n)))
        \<in> set (new_events w (snd (load_contract_artifact env n w)))) \<and>
   count_list (new_events w (snd (load_contract_artifact env n w))) (FileRead (abi_path n)) \<le> 1 \<and>
   count_list (new_events w (snd (load_contract_artifact env n w))) (FileRead (bytecode_path n)) \<le> 1 \<and>
   (m \<in> {''MyToken'', ''DataReview'', ''DataBundle''} \<and>
    (fs (abi_path m) = NoFile \<or> fs (bytecode_path m) = NoFile) \<longrightarrow>
      fst (run env fs) \<noteq> Ok () \<and>
      (\<forall>q. NodeRequest q \<in> set (events (snd (run env fs))) \<longrightarrow> request_for q \<noteq> Some m))"
proof -
  obtain r w' where l: "load_contract_artifact env n w = (r, w')"
    by (metis surj_pair)
  have a: "files w (abi_path n) = NoFile \<longrightarrow>
      r = SystemExit None \<and> Console (Load (AbiNotFound (abi_path n))) \<in> set (new_events w w')"
    using l by (auto simp: load_contract_artifact_def read_file_def proc_simps)
  have b: "\<forall>s. files w (abi_path n) = Text s \<and> json_load env s = None \<longrightarrow>
      r = SystemExit None \<and> Console (Load (AbiNotJson (abi_path n))) \<in> set (new_events w w')"
    using l by (auto simp: load_contract_artifact_def read_file_def proc_simps)
  have c: "\<forall>s j. files w (abi_path n) = Text s \<and> json_load env s = Some j \<and>
           files w (bytecode_path n) = NoFile \<longrightarrow>
      r = SystemExit None \<and> Console (Load (BytecodeNotFound (bytecode_path n))) \<in> set (new_events w w')"
    using l by (auto simp: load_contract_artifact_def read_file_def proc_simps)
  note d = load_reads_once [OF l]
  obtain r2 w2 where p: "program env \<lparr>files = fs, events = []\<rparr> = (r2, w2)"
    by (metis surj_pair)
  have e: "m \<in> {''MyToken'', ''DataReview'', ''DataBundle''} \<and>
    (fs (abi_path m) = NoFile \<or> fs (bytecode_path m) = NoFile) \<longrightarrow>
      r2 \<noteq> Ok () \<and> (\<forall>q. NodeRequest q \<in> set (events w2) \<longrightarrow> request_for q \<noteq> Some m)"
    using program_missing [OF p, of m] by (simp add: new_events_def)
  show ?thesis
    using a b c d e by (simp add: l p run_def)
qed

text \<open>
  A contract without a descriptor on the sample build directory, and the sample run
  without the bytecode of \<^verbatim>\<open>DataReview\<close>.
\<close>

theorem C6_artifact_load_failures_witness:
  "sample_files (abi_path ''Absent'') = NoFile \<and>
   fst (load_contract_artifact sample_env ''Absent'' \<lparr>files = sample_files, events = []\<rparr>) = SystemExit None \<and>
   Console (Load (AbiNotFound (abi_path ''Absent'')))
     \<in> set (new_events \<lparr>files = sample_files, events = []\<rparr>
          (snd (load_contract_artifact sample_env ''Absent'' \<lparr>files = sample_files, events = []\<rparr>))) \<and>
   fst (run sample_env (sample_files (''build/DataReview.bin'' := NoFile))) \<noteq> Ok () \<and>
   filter (\<lambda>q. request_for q = Some ''DataReview'')
     (deployment_requests
        (events (snd (run sample_env (sample_files (''build/DataReview.bin'' := NoFile)))))) = []"
proof -
  have a: "sample_files (abi_path ''Absent'') = NoFile"
    by (simp add: sample_files_def abi_path_def)
  have b: "''DataReview'' \<in> {''MyToken'', ''DataReview'', ''DataBundle''} \<and>
    ((sample_files (''build/DataReview.bin'' := NoFile)) (abi_path ''DataReview'') = NoFile \<or>
     (sample_files (''build/DataReview.bin'' := NoFile)) (bytecode_path ''DataReview'') = NoFile)"
    by (simp add: bytecode_path_def)
  from a b
    C6_artifact_load_failures [of "\<lparr>files = sample_files, events = []\<rparr>" "''Absent''" sample_env
      "''DataReview''" "sample_files (''build/DataReview.bin'' := NoFile)"]
  have c: "fst (load_contract_artifact sample_env ''Absent'' \<lparr>files = sample_files, events = []\<rparr>)
        = SystemExit None"
    and d: "Console (Load (AbiNotFound (abi_path ''Absent'')))
     \<in> set (new_events \<lparr>files = sample_files, events = []\<rparr>
          (snd (load_contract_artifact sample_env ''Absent'' \<lparr>files = sample_files, events = []\<rparr>)))"
    and e: "fst (run sample_env (sample_files (''build/DataReview.bin'' := NoFile))) \<noteq> Ok ()"
    and f: "\<forall>q. NodeRequest q
          \<in> set (events (snd (run sample_env (sample_files (''build/DataReview.bin'' := NoFile)))))
        \<longrightarrow> request_for q \<noteq> Some ''DataReview''"
    by simp_all
  from f have "filter (\<lambda>q. request_for q = Some ''DataReview'')
     (deployment_requests
        (events (snd (run sample_env (sample_files (''build/DataReview.bin'' := NoFile)))))) = []"
    by (auto simp: filter_empty_conv dest: deployment_requests_set)
  with a c d e show ?thesis by simp
qed

subsection \<open>The sequence of the three deployments\<close>

lemma then_do_print:
  "then_do (print m) f w = f () (w\<lparr>events := events w @ [Console m]\<rparr>)"
  by (simp add: then_do_apply print_apply)

lemma compatibleD:
  assumes "compatible R p" and "R w1 w2"
  shows "fst (p w1) = fst (p w2)" and "R (snd (p w1)) (snd (p w2))"
  using assms unfolding compatible_def by blast+

text \<open>
  C4. If the deployment of MyToken fails at any stage (step 1 of \<^verbatim>\<open>main\<close> does not
  return the token contract: loading its artifact, deploying it, or reading it back
  fails), then \<^verbatim>\<open>main\<close> does not complete and nothing is attempted for DataReview or
  DataBundle: no artifact file of theirs is opened and no deployment request is made
  for them.
\<close>

theorem C4_short_circuit:
  assumes "\<forall>c. fst (deploy_MyToken env acct w) \<noteq> Ok c"
  shows "\<not> attempted ''DataReview'' (new_events w (snd (main env acct w))) \<and>
         \<not> attempted ''DataBundle'' (new_events w (snd (main env acct w))) \<and>
         fst (main env acct w) \<noteq> Ok ()"
proof -
  let ?w0 = "w\<lparr>events := events w @ [Console (Main Starting)]\<rparr>"
  obtain r1 w1 where s1: "deploy_MyToken env acct ?w0 = (r1, w1)"
    by (metis surj_pair)
  have "fst (deploy_MyToken env acct w) = fst (deploy_MyToken env acct ?w0)"
    by (rule compatibleD(1) [OF deploy_MyToken_same_files]) (simp add: same_files_def)
  with assms s1 have stop: "\<forall>c. r1 \<noteq> Ok c"
    by simp
  from deploy_MyToken_only_for [OF s1] obtain es where
    w1: "w1 = ?w0\<lparr>events := events ?w0 @ es\<rparr>" and only: "only_for ''MyToken'' es"
    by blast
  have w': "snd (main env acct w) = w1"
    unfolding main_def then_do_print by (rule then_do_stops(1) [where m = "deploy_MyToken env acct" and w = ?w0, OF s1 stop])
  have r: "\<forall>y. fst (main env acct w) \<noteq> Ok y"
    unfolding main_def then_do_print by (rule then_do_stops(2) [where m = "deploy_MyToken env acct" and w = ?w0, OF s1 stop])
  have new: "new_events w (snd (main env acct w)) = Console (Main Starting) # es"
    by (simp add: w' w1 new_events_def)
  from only have "\<not> attempted ''DataReview'' es" "\<not> attempted ''DataBundle'' es"
    by (simp_all add: only_for_not_attempted)
  with r show ?thesis
    by (simp add: new attempted_def)
qed

text \<open>The sample node with an empty build directory: step 1 fails at the artifact.\<close>

theorem C4_short_circuit_witness:
  "(\<forall>c. fst (deploy_MyToken sample_env ''0xd0'' \<lparr>files = (\<lambda>_. NoFile), events = []\<rparr>) \<noteq> Ok c) \<and>
   \<not> attempted ''DataReview'' (new_events \<lparr>files = (\<lambda>_. NoFile), events = []\<rparr>
        (snd (main sample_env ''0xd0'' \<lparr>files = (\<lambda>_. NoFile), events = []\<rparr>))) \<and>
   \<not> attempted ''DataBundle'' (new_events \<lparr>files = (\<lambda>_. NoFile), events = []\<rparr>
        (snd (main sample_env ''0xd0'' \<lparr>files = (\<lambda>_. NoFile), events = []\<rparr>))) \<and>
   fst (main sample_env ''0xd0'' \<lparr>files = (\<lambda>_. NoFile), events = []\<rparr>) \<noteq> Ok ()"
proof -
  have h: "\<forall>c. fst (deploy_MyToken sample_env ''0xd0'' \<lparr>files = (\<lambda>_. NoFile), events = []\<rparr>) \<noteq> Ok c"
    by (simp add: deploy_MyToken_def load_contract_artifact_def read_file_def proc_simps)
  from h C4_short_circuit [OF h] show ?thesis by blast
qed


lemma module_init_Ok_summary:
  assumes "module_init env w = (Ok acct, w')"
  shows "\<exists>es others. eth_accounts env = Returns (acct # others) \<and>
     w' = w\<lparr>events := events w @ es\<rparr> \<and>
     deployment_requests es = [] \<and> confirmed env es = [] \<and> writes es = []"
  using assms unfolding module_init_Ok by fastforce

lemma deploy_MyToken_Ok_summary:
  assumes "deploy_MyToken env acct w = (Ok c, w')"
  shows "\<exists>es tx0 g h rc a j. w' = w\<lparr>events := events w @ es\<rparr> \<and>
     deployment_requests es =
       [Req_build_transaction ''MyToken'' [PyInt initial_supply] acct,
        Req_estimate_gas ''MyToken'' tx0,
        Req_send_transaction ''MyToken'' (tx0\<lparr>gas := g + 100000\<rparr>),
        Req_wait_receipt ''MyToken'' h] \<and>
     confirmed env es = [''MyToken''] \<and> writes es = [] \<and>
     wait_for_transaction_receipt env h = Returns rc \<and> status rc \<noteq> 0 \<and>
     contract_at env (contractAddress rc) j = Returns c \<and> address c = Some a \<and> a \<noteq> []"
  using assms unfolding deploy_MyToken_Ok
  by (fastforce dest: contract_at_address)

lemma deploy_dependent_Ok_summary:
  assumes "deploy_dependent env acct k n token w = (Ok c, w')"
  shows "\<exists>es tx0 g h rc a j. w' = w\<lparr>events := events w @ es\<rparr> \<and>
     deployment_requests es =
       [Req_build_transaction n [address_value token, PyStr acct] acct,
        Req_estimate_gas n tx0,
        Req_send_transaction n (tx0\<lparr>gas := g + 100000\<rparr>),
        Req_wait_receipt n h] \<and>
     confirmed env es = [n] \<and> writes es = [] \<and>
     wait_for_transaction_receipt env h = Returns rc \<and> status rc \<noteq> 0 \<and>
     contract_at env (contractAddress rc) j = Returns c \<and> address c = Some a \<and> a \<noteq> []"
  using assms unfolding deploy_dependent_Ok
  by (fastforce dest: contract_at_address)


lemma program_Ok_summary:
  assumes "program env w = (Ok (), w')"
  shows "\<exists>acct others pre a1 a2 a3 tx1 g1 h1 rc1 j1 c1 tx2 g2 h2 rc2 j2 c2 tx3 g3 h3 rc3 j3 c3.
     eth_accounts env = Returns (acct # others) \<and>
     (\<forall>m. files w ''contract_addresses.json'' \<noteq> Inaccessible m) \<and>
     files w' = (files w)(''contract_addresses.json'' := Text (json_dump env [(''MyToken'', PyStr a1), (''DataReview'', PyStr a2), (''DataBundle'', PyStr a3)])) \<and>
     events w' = events w @ pre @
       [FileWrite ''contract_addresses.json'' (json_dump env [(''MyToken'', PyStr a1), (''DataReview'', PyStr a2), (''DataBundle'', PyStr a3)]),
        Console (Main AddressesSaved), Console (Main ProcessFinished)] \<and>
     deployment_requests pre =
       [Req_build_transaction ''MyToken'' [PyInt initial_supply] acct,
        Req_estimate_gas ''MyToken'' tx1,
        Req_send_transaction ''MyToken'' (tx1\<lparr>gas := g1 + 100000\<rparr>),
        Req_wait_receipt ''MyToken'' h1,
        Req_build_transaction ''DataReview'' [PyStr a1, PyStr acct] acct,
        Req_estimate_gas ''DataReview'' tx2,
        Req_send_transaction ''DataReview'' (tx2\<lparr>gas := g2 + 100000\<rparr>),
        Req_wait_receipt ''DataReview'' h2,
        Req_build_transaction ''DataBundle'' [PyStr a1, PyStr acct] acct,
        Req_estimate_gas ''DataBundle'' tx3,
        Req_send_transaction ''DataBundle'' (tx3\<lparr>gas := g3 + 100000\<rparr>),
        Req_wait_receipt ''DataBundle'' h3] \<and>
     confirmed env pre = [''MyToken'', ''DataReview'', ''DataBundle''] \<and> writes pre = [] \<and>
     a1 \<noteq> [] \<and> a2 \<noteq> [] \<and> a3 \<noteq> [] \<and>
     wait_for_transaction_receipt env h1 = Returns rc1 \<and> status rc1 \<noteq> 0 \<and>
     contract_at env (contractAddress rc1) j1 = Returns c1 \<and> address c1 = Some a1 \<and>
     wait_for_transaction_receipt env h2 = Returns rc2 \<and> status rc2 \<noteq> 0 \<and>
     contract_at env (contractAddress rc2) j2 = Returns c2 \<and> address c2 = Some a2 \<and>
     wait_for_transaction_receipt env h3 = Returns rc3 \<and> status rc3 \<noteq> 0 \<and>
     contract_at env (contractAddress rc3) j3 = Returns c3 \<and> address c3 = Some a3"
proof -
  from assms obtain acct w0 c1 w1 c2 w2 c3 w3 where
    s0: "module_init env w = (Ok acct, w0)"
    and s1: "deploy_MyToken env acct (w0\<lparr>events := events w0 @ [Console (Main Starting)]\<rparr>) = (Ok c1, w1)"
    and s2: "deploy_dependent env acct 2 ''DataReview'' c1 w1 = (Ok c2, w2)"
    and s3: "deploy_dependent env acct 3 ''DataBundle'' c1 w2 = (Ok c3, w3)"
    and s4: "save_addresses env c1 c2 c3 w3 = (Ok (), w')"
    unfolding program_Ok by blast
  from module_init_Ok_summary [OF s0] obtain es0 others where
    acc: "eth_accounts env = Returns (acct # others)"
    and w0: "w0 = w\<lparr>events := events w @ es0\<rparr>"
    and e0: "deployment_requests es0 = []" "confirmed env es0 = []" "writes es0 = []"
    by blast
  from deploy_MyToken_Ok_summary [OF s1] obtain es1 tx1 g1 h1 rc1 a1 j1 where
    w1: "w1 = w0\<lparr>events := events w0 @ [Console (Main Starting)]\<rparr>\<lparr>events :=
            events (w0\<lparr>events := events w0 @ [Console (Main Starting)]\<rparr>) @ es1\<rparr>"
    and e1: "deployment_requests es1 =
       [Req_build_transaction ''MyToken'' [PyInt initial_supply] acct,
        Req_estimate_gas ''MyToken'' tx1,
        Req_send_transaction ''MyToken'' (tx1\<lparr>gas := g1 + 100000\<rparr>),
        Req_wait_receipt ''MyToken'' h1]" "confirmed env es1 = [''MyToken'']" "writes es1 = []"
    and r1: "wait_for_transaction_receipt env h1 = Returns rc1" "status rc1 \<noteq> 0"
      "contract_at env (contractAddress rc1) j1 = Returns c1"
    and a1: "address c1 = Some a1" "a1 \<noteq> []"
    by blast
  from a1 have v1: "address_value c1 = PyStr a1"
    by (simp add: address_value_def)
  from deploy_dependent_Ok_summary [OF s2] obtain es2 tx2 g2 h2 rc2 a2 j2 where
    w2: "w2 = w1\<lparr>events := events w1 @ es2\<rparr>"
    and e2: "deployment_requests es2 =
       [Req_build_transaction ''DataReview'' [address_value c1, PyStr acct] acct,
        Req_estimate_gas ''DataReview'' tx2,
        Req_send_transaction ''DataReview'' (tx2\<lparr>gas := g2 + 100000\<rparr>),
        Req_wait_receipt ''DataReview'' h2]" "confirmed env es2 = [''DataReview'']" "writes es2 = []"
    and r2: "wait_for_transaction_receipt env h2 = Returns rc2" "status rc2 \<noteq> 0"
      "contract_at env (contractAddress rc2) j2 = Returns c2"
    and a2: "address c2 = Some a2" "a2 \<noteq> []"
    by blast
  from a2 have v2: "address_value c2 = PyStr a2"
    by (simp add: address_value_def)
  from deploy_dependent_Ok_summary [OF s3] obtain es3 tx3 g3 h3 rc3 a3 j3 where
    w3: "w3 = w2\<lparr>events := events w2 @ es3\<rparr>"
    and e3: "deployment_requests es3 =
       [Req_build_transaction ''DataBundle'' [address_value c1, PyStr acct] acct,
        Req_estimate_gas ''DataBundle'' tx3,
        Req_send_transaction ''DataBundle'' (tx3\<lparr>gas := g3 + 100000\<rparr>),
        Req_wait_receipt ''DataBundle'' h3]" "confirmed env es3 = [''DataBundle'']" "writes es3 = []"
    and r3: "wait_for_transaction_receipt env h3 = Returns rc3" "status rc3 \<noteq> 0"
      "contract_at env (contractAddress rc3) j3 = Returns c3"
    and a3: "address c3 = Some a3" "a3 \<noteq> []"
    by blast
  from a3 have v3: "address_value c3 = PyStr a3"
    by (simp add: address_value_def)
  define pre where "pre = es0 @ Console (Main Starting) # es1 @ es2 @ es3 @
      [Console (Main AllDeployed),
       Console (Main (AddressLine ''MyToken'' (Some a1))),
       Console (Main (AddressLine ''DataReview'' (Some a2))),
       Console (Main (AddressLine ''DataBundle'' (Some a3)))]"
  have f3: "files w3 = files w" and ev3: "events w3 = events w @ es0 @ Console (Main Starting) # es1 @ es2 @ es3"
    by (simp_all add: w0 w1 w2 w3)
  from s4 have ok: "\<forall>m. files w ''contract_addresses.json'' \<noteq> Inaccessible m"
    and fw: "files w' = (files w)(''contract_addresses.json'' := Text (json_dump env [(''MyToken'', PyStr a1), (''DataReview'', PyStr a2), (''DataBundle'', PyStr a3)]))"
    and ev: "events w' = events w @ pre @
       [FileWrite ''contract_addresses.json'' (json_dump env [(''MyToken'', PyStr a1), (''DataReview'', PyStr a2), (''DataBundle'', PyStr a3)]),
        Console (Main AddressesSaved), Console (Main ProcessFinished)]"
    unfolding save_addresses_Ok by (simp_all add: f3 ev3 v1 v2 v3 a1 a2 a3 pre_def)
  have dr: "deployment_requests pre =
       [Req_build_transaction ''MyToken'' [PyInt initial_supply] acct,
        Req_estimate_gas ''MyToken'' tx1,
        Req_send_transaction ''MyToken'' (tx1\<lparr>gas := g1 + 100000\<rparr>),
        Req_wait_receipt ''MyToken'' h1,
        Req_build_transaction ''DataReview'' [PyStr a1, PyStr acct] acct,
        Req_estimate_gas ''DataReview'' tx2,
        Req_send_transaction ''DataReview'' (tx2\<lparr>gas := g2 + 100000\<rparr>),
        Req_wait_receipt ''DataReview'' h2,
        Req_build_transaction ''DataBundle'' [PyStr a1, PyStr acct] acct,
        Req_estimate_gas ''DataBundle'' tx3,
        Req_send_transaction ''DataBundle'' (tx3\<lparr>gas := g3 + 100000\<rparr>),
        Req_wait_receipt ''DataBundle'' h3]"
    by (simp add: pre_def e0 e1 e2 e3 v1)
  have cf: "confirmed env pre = [''MyToken'', ''DataReview'', ''DataBundle'']" and wr: "writes pre = []"
    by (simp_all add: pre_def e0 e1 e2 e3)
  show ?thesis
    by (rule exI [of _ acct],
        rule exI [of _ others],
        rule exI [of _ pre],
        rule exI [of _ a1],
        rule exI [of _ a2],
        rule exI [of _ a3],
        rule exI [of _ tx1],
        rule exI [of _ g1],
        rule exI [of _ h1],
        rule exI [of _ rc1],
        rule exI [of _ j1],
        rule exI [of _ c1],
        rule exI [of _ tx2],
        rule exI [of _ g2],
        rule exI [of _ h2],
        rule exI [of _ rc2],
        rule exI [of _ j2],
        rule exI [of _ c2],
        rule exI [of _ tx3],
        rule exI [of _ g3],
        rule exI [of _ h3],
        rule exI [of _ rc3],
        rule exI [of _ j3],
        rule exI [of _ c3])
       (intro conjI; fact)
qed


lemma run_cases:
  obtains r w' where "run env fs = (r, w')" "program env \<lparr>files = fs, events = []\<rparr> = (r, w')"
  by (metis run_def surj_pair)

text \<open>
  C1. In every successful run the deployment requests are, in this order, the four of
  MyToken (construction, estimate, submission, receipt), the four of DataReview and the
  four of DataBundle. MyToken is constructed with the single argument
  \<open>1000000 * 10^18\<close>; its receipt has a status other than 0; DataReview and DataBundle are
  constructed after it, each with the two arguments \<^verbatim>\<open>token_contract.address\<close>, the
  address of the contract object made from that receipt, and the default account.
\<close>

theorem C1_deployment_order:
  assumes "fst (run env fs) = Ok ()"
  shows "\<exists>acct others a tx1 g1 h1 rc1 j1 c1 tx2 g2 h2 tx3 g3 h3.
     eth_accounts env = Returns (acct # others) \<and>
     deployment_requests (events (snd (run env fs))) =
       [Req_build_transaction ''MyToken'' [PyInt (1000000 * 10 ^ 18)] acct,
        Req_estimate_gas ''MyToken'' tx1,
        Req_send_transaction ''MyToken'' (tx1\<lparr>gas := g1 + 100000\<rparr>),
        Req_wait_receipt ''MyToken'' h1,
        Req_build_transaction ''DataReview'' [PyStr a, PyStr acct] acct,
        Req_estimate_gas ''DataReview'' tx2,
        Req_send_transaction ''DataReview'' (tx2\<lparr>gas := g2 + 100000\<rparr>),
        Req_wait_receipt ''DataReview'' h2,
        Req_build_transaction ''DataBundle'' [PyStr a, PyStr acct] acct,
        Req_estimate_gas ''DataBundle'' tx3,
        Req_send_transaction ''DataBundle'' (tx3\<lparr>gas := g3 + 100000\<rparr>),
        Req_wait_receipt ''DataBundle'' h3] \<and>
     wait_for_transaction_receipt env h1 = Returns rc1 \<and> status rc1 \<noteq> 0 \<and>
     contract_at env (contractAddress rc1) j1 = Returns c1 \<and> address c1 = Some a"
proof -
  obtain r w' where run: "run env fs = (r, w')"
    and p: "program env \<lparr>files = fs, events = []\<rparr> = (r, w')"
    by (rule run_cases)
  with assms have "program env \<lparr>files = fs, events = []\<rparr> = (Ok (), w')"
    by simp
  from program_Ok_summary [OF this] obtain acct others pre a1 a2 a3 tx1 g1 h1 rc1 j1 c1
      tx2 g2 h2 rc2 j2 c2 tx3 g3 h3 rc3 j3 c3
    where acc: "eth_accounts env = Returns (acct # others)"
      and ev: "events w' = events \<lparr>files = fs, events = []\<rparr> @ pre @
       [FileWrite ''contract_addresses.json''
          (json_dump env [(''MyToken'', PyStr a1), (''DataReview'', PyStr a2), (''DataBundle'', PyStr a3)]),
        Console (Main AddressesSaved), Console (Main ProcessFinished)]"
      and dr: "deployment_requests pre =
       [Req_build_transaction ''MyToken'' [PyInt initial_supply] acct,
        Req_estimate_gas ''MyToken'' tx1,
        Req_send_transaction ''MyToken'' (tx1\<lparr>gas := g1 + 100000\<rparr>),
        Req_wait_receipt ''MyToken'' h1,
        Req_build_transaction ''DataReview'' [PyStr a1, PyStr acct] acct,
        Req_estimate_gas ''DataReview'' tx2,
        Req_send_transaction ''DataReview'' (tx2\<lparr>gas := g2 + 100000\<rparr>),
        Req_wait_receipt ''DataReview'' h2,
        Req_build_transaction ''DataBundle'' [PyStr a1, PyStr acct] acct,
        Req_estimate_gas ''DataBundle'' tx3,
        Req_send_transaction ''DataBundle'' (tx3\<lparr>gas := g3 + 100000\<rparr>),
        Req_wait_receipt ''DataBundle'' h3]"
      and rc: "wait_for_transaction_receipt env h1 = Returns rc1" "status rc1 \<noteq> 0"
        "contract_at env (contractAddress rc1) j1 = Returns c1" "address c1 = Some a1"
    by blast
  have "deployment_requests (events (snd (run env fs))) =
       [Req_build_transaction ''MyToken'' [PyInt (1000000 * 10 ^ 18)] acct,
        Req_estimate_gas ''MyToken'' tx1,
        Req_send_transaction ''MyToken'' (tx1\<lparr>gas := g1 + 100000\<rparr>),
        Req_wait_receipt ''MyToken'' h1,
        Req_build_transaction ''DataReview'' [PyStr a1, PyStr acct] acct,
        Req_estimate_gas ''DataReview'' tx2,
        Req_send_transaction ''DataReview'' (tx2\<lparr>gas := g2 + 100000\<rparr>),
        Req_wait_receipt ''DataReview'' h2,
        Req_build_transaction ''DataBundle'' [PyStr a1, PyStr acct] acct,
        Req_estimate_gas ''DataBundle'' tx3,
        Req_send_transaction ''DataBundle'' (tx3\<lparr>gas := g3 + 100000\<rparr>),
        Req_wait_receipt ''DataBundle'' h3]"
    by (simp add: run ev dr initial_supply_def)
  with acc rc show ?thesis
    by blast
qed

text \<open>The sample run completes.\<close>

theorem C1_deployment_order_witness:
  "fst (run sample_env sample_files) = Ok () \<and>
   (\<exists>acct others a tx1 g1 h1 rc1 j1 c1 tx2 g2 h2 tx3 g3 h3.
     eth_accounts sample_env = Returns (acct # others) \<and>
     deployment_requests (events (snd (run sample_env sample_files))) =
       [Req_build_transaction ''MyToken'' [PyInt (1000000 * 10 ^ 18)] acct,
        Req_estimate_gas ''MyToken'' tx1,
        Req_send_transaction ''MyToken'' (tx1\<lparr>gas := g1 + 100000\<rparr>),
        Req_wait_receipt ''MyToken'' h1,
        Req_build_transaction ''DataReview'' [PyStr a, PyStr acct] acct,
        Req_estimate_gas ''DataReview'' tx2,
        Req_send_transaction ''DataReview'' (tx2\<lparr>gas := g2 + 100000\<rparr>),
        Req_wait_receipt ''DataReview'' h2,
        Req_build_transaction ''DataBundle'' [PyStr a, PyStr acct] acct,
        Req_estimate_gas ''DataBundle'' tx3,
        Req_send_transaction ''DataBundle'' (tx3\<lparr>gas := g3 + 100000\<rparr>),
        Req_wait_receipt ''DataBundle'' h3] \<and>
     wait_for_transaction_receipt sample_env h1 = Returns rc1 \<and> status rc1 \<noteq> 0 \<and>
     contract_at sample_env (contractAddress rc1) j1 = Returns c1 \<and> address c1 = Some a)"
proof -
  have h: "fst (run sample_env sample_files) = Ok ()"
    by (rule sample_run(1)) (simp_all add: sample_files_at)
  from h C1_deployment_order [OF h] show ?thesis by (rule conjI)
qed

lemma only_for_all_writes: "\<forall>n. only_for n es \<Longrightarrow> writes es = []"
  using only_for_writes by blast

lemma program_not_Ok:
  assumes "program env w = (r, w')" and "r \<noteq> Ok ()"
  shows "files w' = files w \<and> writes (new_events w w') = []"
  using assms
  by (auto simp: program_def main_def proc_simps only_for_writes only_for_all_writes
        split: prod.splits outcome.splits
        dest!: module_init_frame deploy_MyToken_only_for deploy_dependent_only_for
          save_addresses_not_Ok)

text \<open>
  C5. In a successful run the address map is written once, to
  \<^verbatim>\<open>contract_addresses.json\<close>, replacing whatever was there; what is written is the dump
  of exactly the three entries MyToken, DataReview, DataBundle, each with a non-empty
  address; and the write comes after the three deployment receipts have been confirmed,
  followed only by the two closing console lines. In a run that does not succeed no
  file is written and the file system is left as it was.
\<close>

theorem C5_registry_written_after_all_succeed:
  "(fst (run env fs) = Ok () \<longrightarrow>
      (\<exists>a1 a2 a3 pre. a1 \<noteq> [] \<and> a2 \<noteq> [] \<and> a3 \<noteq> [] \<and>
         files (snd (run env fs)) = fs(''contract_addresses.json'' := Text (json_dump env [(''MyToken'', PyStr a1), (''DataReview'', PyStr a2), (''DataBundle'', PyStr a3)])) \<and>
         events (snd (run env fs)) = pre @
           [FileWrite ''contract_addresses.json'' (json_dump env [(''MyToken'', PyStr a1), (''DataReview'', PyStr a2), (''DataBundle'', PyStr a3)]),
            Console (Main AddressesSaved), Console (Main ProcessFinished)] \<and>
         writes pre = [] \<and>
         confirmed env pre = [''MyToken'', ''DataReview'', ''DataBundle''])) \<and>
   (fst (run env fs) \<noteq> Ok () \<longrightarrow>
      files (snd (run env fs)) = fs \<and> writes (events (snd (run env fs))) = [])"
proof -
  obtain r w' where run: "run env fs = (r, w')"
    and p: "program env \<lparr>files = fs, events = []\<rparr> = (r, w')"
    by (rule run_cases)
  show ?thesis
  proof (cases "r = Ok ()")
    case True
    with p have "program env \<lparr>files = fs, events = []\<rparr> = (Ok (), w')"
      by simp
    from program_Ok_summary [OF this] True show ?thesis
      unfolding run by simp blast
  next
    case False
    from program_not_Ok [OF p False] False show ?thesis
      unfolding run by (simp add: new_events_def)
  qed
qed

text \<open>The sample run, and the run on an empty build directory.\<close>

theorem C5_registry_written_after_all_succeed_witness:
  "fst (run sample_env sample_files) = Ok () \<and>
   (\<exists>a1 a2 a3 pre. a1 \<noteq> [] \<and> a2 \<noteq> [] \<and> a3 \<noteq> [] \<and>
      files (snd (run sample_env sample_files)) =
        sample_files(''contract_addresses.json'' := Text (json_dump sample_env
          [(''MyToken'', PyStr a1), (''DataReview'', PyStr a2), (''DataBundle'', PyStr a3)])) \<and>
      events (snd (run sample_env sample_files)) = pre @
        [FileWrite ''contract_addresses.json'' (json_dump sample_env
           [(''MyToken'', PyStr a1), (''DataReview'', PyStr a2), (''DataBundle'', PyStr a3)]),
         Console (Main AddressesSaved), Console (Main ProcessFinished)] \<and>
      writes pre = [] \<and>
      confirmed sample_env pre = [''MyToken'', ''DataReview'', ''DataBundle'']) \<and>
   fst (run sample_env (\<lambda>_. NoFile)) \<noteq> Ok () \<and>
   files (snd (run sample_env (\<lambda>_. NoFile))) = (\<lambda>_. NoFile) \<and>
   writes (events (snd (run sample_env (\<lambda>_. NoFile)))) = []"
proof -
  have h: "fst (run sample_env sample_files) = Ok ()"
    by (rule sample_run(1)) (simp_all add: sample_files_at)
  have g: "fst (run sample_env (\<lambda>_. NoFile)) \<noteq> Ok ()"
    by (simp add: run_def program_def main_def deploy_MyToken_def load_contract_artifact_def
        read_file_def module_init_def abi_path_def proc_simps sample_env_fields)
  from h g C5_registry_written_after_all_succeed [of sample_env sample_files]
    C5_registry_written_after_all_succeed [of sample_env "\<lambda>_. NoFile"]
  show ?thesis by simp
qed

subsection \<open>Running the sequence again\<close>

text \<open>
  The script never reads \<^verbatim>\<open>contract_addresses.json\<close> and asks the node about no earlier
  deployment: every address it records is the one the node gives in the receipt of a
  creation transaction of the same run. The node assigns the addresses, so what a second
  run records is settled by the node's answers in that run; they are the environment
  \<open>env2\<close> below, the answers in the first run being \<open>env1\<close>.
\<close>

lemma address_at_contract:
  "contract_at env x j = Returns c \<Longrightarrow> address_at env x = address c"
  by (auto simp: address_at_def contract_at_def split: option.splits if_splits pyres.splits)

lemma program_Ok_created:
  assumes "program env \<lparr>files = fs, events = []\<rparr> = (Ok (), w')"
  shows "\<exists>a1 a2 a3 h1 rc1 h2 rc2 h3 rc3.
     files w' ''contract_addresses.json'' =
       Text (json_dump env [(''MyToken'', PyStr a1), (''DataReview'', PyStr a2), (''DataBundle'', PyStr a3)]) \<and>
     created env (deployment_requests (events w')) = [a1, a2, a3] \<and>
     wait_for_transaction_receipt env h1 = Returns rc1 \<and> address_at env (contractAddress rc1) = Some a1 \<and>
     wait_for_transaction_receipt env h2 = Returns rc2 \<and> address_at env (contractAddress rc2) = Some a2 \<and>
     wait_for_transaction_receipt env h3 = Returns rc3 \<and> address_at env (contractAddress rc3) = Some a3"
proof -
  from program_Ok_summary [OF assms] obtain acct others pre a1 a2 a3 tx1 g1 h1 rc1 j1 c1
      tx2 g2 h2 rc2 j2 c2 tx3 g3 h3 rc3 j3 c3
    where fw: "files w' = (files \<lparr>files = fs, events = []\<rparr>)(''contract_addresses.json'' := Text
        (json_dump env [(''MyToken'', PyStr a1), (''DataReview'', PyStr a2), (''DataBundle'', PyStr a3)]))"
      and ev: "events w' = events \<lparr>files = fs, events = []\<rparr> @ pre @
       [FileWrite ''contract_addresses.json''
          (json_dump env [(''MyToken'', PyStr a1), (''DataReview'', PyStr a2), (''DataBundle'', PyStr a3)]),
        Console (Main AddressesSaved), Console (Main ProcessFinished)]"
      and dr: "deployment_requests pre =
       [Req_build_transaction ''MyToken'' [PyInt initial_supply] acct,
        Req_estimate_gas ''MyToken'' tx1,
        Req_send_transaction ''MyToken'' (tx1\<lparr>gas := g1 + 100000\<rparr>),
        Req_wait_receipt ''MyToken'' h1,
        Req_build_transaction ''DataReview'' [PyStr a1, PyStr acct] acct,
        Req_estimate_gas ''DataReview'' tx2,
        Req_send_transaction ''DataReview'' (tx2\<lparr>gas := g2 + 100000\<rparr>),
        Req_wait_receipt ''DataReview'' h2,
        Req_build_transaction ''DataBundle'' [PyStr a1, PyStr acct] acct,
        Req_estimate_gas ''DataBundle'' tx3,
        Req_send_transaction ''DataBundle'' (tx3\<lparr>gas := g3 + 100000\<rparr>),
        Req_wait_receipt ''DataBundle'' h3]"
      and r1: "wait_for_transaction_receipt env h1 = Returns rc1" "status rc1 \<noteq> 0"
        "contract_at env (contractAddress rc1) j1 = Returns c1" "address c1 = Some a1"
      and r2: "wait_for_transaction_receipt env h2 = Returns rc2" "status rc2 \<noteq> 0"
        "contract_at env (contractAddress rc2) j2 = Returns c2" "address c2 = Some a2"
      and r3: "wait_for_transaction_receipt env h3 = Returns rc3" "status rc3 \<noteq> 0"
        "contract_at env (contractAddress rc3) j3 = Returns c3" "address c3 = Some a3"
    by (elim exE conjE) (rule that, assumption+)
  have ad: "address_at env (contractAddress rc1) = Some a1"
    "address_at env (contractAddress rc2) = Some a2"
    "address_at env (contractAddress rc3) = Some a3"
    using r1 r2 r3 by (simp_all add: address_at_contract)
  have cr: "created env (deployment_requests (events w')) = [a1, a2, a3]"
    by (simp add: ev dr r1 r2 r3 ad)
  have f: "files w' ''contract_addresses.json'' =
       Text (json_dump env [(''MyToken'', PyStr a1), (''DataReview'', PyStr a2), (''DataBundle'', PyStr a3)])"
    by (simp add: fw)
  from f cr r1(1) ad(1) r2(1) ad(2) r3(1) ad(3) show ?thesis
    by blast
qed

text \<open>The sample node and the same node later on, run on a build directory holding the artifacts.\<close>

lemma later_env_fields:
  "eth_accounts later_env = Returns [''0xd0'', ''0xd1'']"
  "is_connected later_env = True"
  "client_version later_env = Returns ''Ganache''"
  "block_number later_env = Returns 0"
  "chain_id later_env = Returns 1337"
  "json_load later_env = (\<lambda>s. if s = ''[]'' then Some (JArr []) else None)"
  "json_dump later_env = sample_dump"
  "contract_factory later_env = (\<lambda>_ _. Returns ())"
  "build_transaction later_env = (\<lambda>_ bytecode _ sender.
        Returns \<lparr>tx_from = sender, tx_data = bytecode, gas = 0, tx_rest = []\<rparr>)"
  "estimate_gas later_env = (\<lambda>_. Returns 500000)"
  "send_transaction later_env = (\<lambda>tx. Returns (''0xh'' @ tx_data tx))"
  "wait_for_transaction_receipt later_env = (\<lambda>h.
        Returns \<lparr>status = 1, contractAddress = Some (''0xe'' @ drop 3 h), blockNumber = 2\<rparr>)"
  "debug_traceTransaction later_env = (\<lambda>_. Raises (LibraryError ''Method debug_traceTransaction not supported''))"
  "utf8_decode_ignore later_env = map char_of"
  "normalize_address later_env = Returns"
  "eth_call_uint later_env = (\<lambda>_ _ _. Returns (1000000 * 10 ^ 18))"
  "eth_call_address later_env = (\<lambda>_ _ _. Returns ''0xd0'')"
  by (simp_all add: later_env_def sample_env_fields)

lemma sample_run_created:
  assumes "fs ''build/MyToken.json'' = Text ''[]''" "fs ''build/DataReview.json'' = Text ''[]''"
    "fs ''build/DataBundle.json'' = Text ''[]''" "fs ''build/MyToken.bin'' = Text ''a0''"
    "fs ''build/DataReview.bin'' = Text ''b0''" "fs ''build/DataBundle.bin'' = Text ''c0''"
    "\<forall>m. fs ''contract_addresses.json'' \<noteq> Inaccessible m"
  shows "created sample_env (deployment_requests (events (snd (run sample_env fs)))) =
           [''0xca0'', ''0xcb0'', ''0xcc0'']"
  using assms by (simp add: eval_simps sample_env_fields address_at_def split: fsentry.splits)

lemma later_run:
  assumes "fs ''build/MyToken.json'' = Text ''[]''" "fs ''build/DataReview.json'' = Text ''[]''"
    "fs ''build/DataBundle.json'' = Text ''[]''" "fs ''build/MyToken.bin'' = Text ''a0''"
    "fs ''build/DataReview.bin'' = Text ''b0''" "fs ''build/DataBundle.bin'' = Text ''c0''"
    "\<forall>m. fs ''contract_addresses.json'' \<noteq> Inaccessible m"
  shows "fst (run later_env fs) = Ok ()"
    and "files (snd (run later_env fs)) ''contract_addresses.json'' =
           Text ''MyToken=0xea0;DataReview=0xeb0;DataBundle=0xec0;''"
    and "created later_env (deployment_requests (events (snd (run later_env fs)))) =
           [''0xea0'', ''0xeb0'', ''0xec0'']"
  using assms by (simp_all add: eval_simps later_env_fields address_at_def split: fsentry.splits)

lemma later_env_address:
  "wait_for_transaction_receipt later_env h = Returns rc \<Longrightarrow>
   address_at later_env (contractAddress rc) = Some a \<Longrightarrow> a = ''0xe'' @ drop 3 h"
  by (auto simp: later_env_fields address_at_def contract_at_def address_value_def
        split: pyres.splits option.splits if_splits)

text \<open>
  C8. The full deployment sequence is not idempotent. Run it once, on the node \<open>env1\<close> and
  the files \<open>fs\<close>, and then again on the files the first run left, on a node \<open>env2\<close> whose
  chain holds what the first run deployed, so that no contract it creates gets the address
  of one created in the first run. If the second run completes, it has created three
  contracts of its own and recorded their addresses, none of which is an address of the
  first run: no step looked for an earlier deployment or took an address from the
  registry file. When the first run completed, the two recorded sets of addresses differ.
  When the first run failed in the middle, after creating some of the contracts, it left
  the files as they were, and the second run has deployed everything again, the contracts
  that had succeeded before included.
\<close>

theorem C8_rerun_deploys_anew:
  fixes env1 env2 fs
  defines "w1 \<equiv> snd (run env1 fs)"
  defines "w2 \<equiv> snd (run env2 (files w1))"
  defines "first \<equiv> created env1 (deployment_requests (events w1))"
  assumes fresh: "\<forall>h rc a. wait_for_transaction_receipt env2 h = Returns rc \<and>
                    address_at env2 (contractAddress rc) = Some a \<longrightarrow> a \<notin> set first"
    and again: "fst (run env2 (files w1)) = Ok ()"
  shows "\<exists>b1 b2 b3.
     files w2 ''contract_addresses.json'' =
       Text (json_dump env2 [(''MyToken'', PyStr b1), (''DataReview'', PyStr b2), (''DataBundle'', PyStr b3)]) \<and>
     created env2 (deployment_requests (events w2)) = [b1, b2, b3] \<and>
     set [b1, b2, b3] \<inter> set first = {} \<and>
     (fst (run env1 fs) = Ok () \<longrightarrow>
        (\<exists>a1 a2 a3.
           files w1 ''contract_addresses.json'' =
             Text (json_dump env1 [(''MyToken'', PyStr a1), (''DataReview'', PyStr a2), (''DataBundle'', PyStr a3)]) \<and>
           first = [a1, a2, a3] \<and> set [a1, a2, a3] \<noteq> set [b1, b2, b3])) \<and>
     (fst (run env1 fs) \<noteq> Ok () \<longrightarrow> files w1 = fs)"
proof -
  obtain r1 u1 where run1: "run env1 fs = (r1, u1)"
    and p1: "program env1 \<lparr>files = fs, events = []\<rparr> = (r1, u1)"
    by (rule run_cases)
  have u1: "w1 = u1" by (simp add: w1_def run1)
  obtain r2 u2 where run2: "run env2 (files u1) = (r2, u2)"
    and p2: "program env2 \<lparr>files = files u1, events = []\<rparr> = (r2, u2)"
    by (rule run_cases)
  have u2: "w2 = u2" by (simp add: w2_def u1 run2)
  from again have "r2 = Ok ()" by (simp add: u1 run2)
  with p2 have q2: "program env2 \<lparr>files = files u1, events = []\<rparr> = (Ok (), u2)" by simp
  from program_Ok_created [OF q2] obtain b1 b2 b3 h1 rc1 h2 rc2 h3 rc3 where
    f2: "files u2 ''contract_addresses.json'' =
       Text (json_dump env2 [(''MyToken'', PyStr b1), (''DataReview'', PyStr b2), (''DataBundle'', PyStr b3)])"
    and c2: "created env2 (deployment_requests (events u2)) = [b1, b2, b3]"
    and n1: "wait_for_transaction_receipt env2 h1 = Returns rc1" "address_at env2 (contractAddress rc1) = Some b1"
    and n2: "wait_for_transaction_receipt env2 h2 = Returns rc2" "address_at env2 (contractAddress rc2) = Some b2"
    and n3: "wait_for_transaction_receipt env2 h3 = Returns rc3" "address_at env2 (contractAddress rc3) = Some b3"
    by blast
  from fresh n1 n2 n3 have new: "b1 \<notin> set first" "b2 \<notin> set first" "b3 \<notin> set first"
    by blast+
  then have disj: "set [b1, b2, b3] \<inter> set first = {}"
    by simp
  have ok: "\<exists>a1 a2 a3.
           files u1 ''contract_addresses.json'' =
             Text (json_dump env1 [(''MyToken'', PyStr a1), (''DataReview'', PyStr a2), (''DataBundle'', PyStr a3)]) \<and>
           first = [a1, a2, a3] \<and> set [a1, a2, a3] \<noteq> set [b1, b2, b3]" if "r1 = Ok ()"
  proof -
    from that p1 have "program env1 \<lparr>files = fs, events = []\<rparr> = (Ok (), u1)" by simp
    from program_Ok_created [OF this] obtain a1 a2 a3 where
      f1: "files u1 ''contract_addresses.json'' =
             Text (json_dump env1 [(''MyToken'', PyStr a1), (''DataReview'', PyStr a2), (''DataBundle'', PyStr a3)])"
      and c1: "created env1 (deployment_requests (events u1)) = [a1, a2, a3]"
      by blast
    from c1 have fst: "first = [a1, a2, a3]" by (simp add: first_def u1)
    with new(1) have "b1 \<notin> set [a1, a2, a3]" by simp
    then have "set [a1, a2, a3] \<noteq> set [b1, b2, b3]" by auto
    with f1 fst show ?thesis by blast
  qed
  have bad: "files u1 = fs" if "r1 \<noteq> Ok ()"
    using program_not_Ok [OF p1 that] by simp
  show ?thesis
    apply (rule exI [of _ b1], rule exI [of _ b2], rule exI [of _ b3])
    using f2 c2 disj ok bad by (simp add: u1 u2 run1)
qed

text \<open>
  The sample node and build directory: the first run records the addresses \<^verbatim>\<open>0xca0\<close>,
  \<^verbatim>\<open>0xcb0\<close>, \<^verbatim>\<open>0xcc0\<close>; run again on the files it left, on the node later on, the script
  records \<^verbatim>\<open>0xea0\<close>, \<^verbatim>\<open>0xeb0\<close>, \<^verbatim>\<open>0xec0\<close>.
\<close>

theorem C8_rerun_deploys_anew_witness:
  "fst (run later_env (files (snd (run sample_env sample_files)))) = Ok () \<and>
   created sample_env (deployment_requests (events (snd (run sample_env sample_files)))) =
     [''0xca0'', ''0xcb0'', ''0xcc0''] \<and>
   created later_env (deployment_requests (events (snd (run later_env (files (snd (run sample_env sample_files))))))) =
     [''0xea0'', ''0xeb0'', ''0xec0''] \<and>
   files (snd (run sample_env sample_files)) ''contract_addresses.json'' =
     Text ''MyToken=0xca0;DataReview=0xcb0;DataBundle=0xcc0;'' \<and>
   files (snd (run later_env (files (snd (run sample_env sample_files))))) ''contract_addresses.json'' =
     Text ''MyToken=0xea0;DataReview=0xeb0;DataBundle=0xec0;'' \<and>
   set [''0xea0'', ''0xeb0'', ''0xec0''] \<inter> set [''0xca0'', ''0xcb0'', ''0xcc0''] = {} \<and>
   set [''0xca0'', ''0xcb0'', ''0xcc0''] \<noteq> set [''0xea0'', ''0xeb0'', ''0xec0'']"
proof -
  have ok1: "fst (run sample_env sample_files) = Ok ()"
    by (rule sample_run(1)) (simp_all add: sample_files_at)
  have f1: "files (snd (run sample_env sample_files)) =
      sample_files(''contract_addresses.json'' := Text ''MyToken=0xca0;DataReview=0xcb0;DataBundle=0xcc0;'')"
    by (rule sample_run(2)) (simp_all add: sample_files_at)
  have c1: "created sample_env (deployment_requests (events (snd (run sample_env sample_files)))) =
     [''0xca0'', ''0xcb0'', ''0xcc0'']"
    by (rule sample_run_created) (simp_all add: sample_files_at)
  have again: "fst (run later_env (files (snd (run sample_env sample_files)))) = Ok ()"
    unfolding f1 by (rule later_run(1)) (simp_all add: sample_files_at)
  have c2: "created later_env (deployment_requests (events (snd (run later_env (files (snd (run sample_env sample_files))))))) =
     [''0xea0'', ''0xeb0'', ''0xec0'']"
    unfolding f1 by (rule later_run(3)) (simp_all add: sample_files_at)
  have fresh: "\<forall>h rc a. wait_for_transaction_receipt later_env h = Returns rc \<and>
       address_at later_env (contractAddress rc) = Some a \<longrightarrow>
       a \<notin> set (created sample_env (deployment_requests (events (snd (run sample_env sample_files)))))"
    unfolding c1 by (auto dest!: later_env_address)
  from C8_rerun_deploys_anew [where ?env1.0 = sample_env and ?env2.0 = later_env and fs = sample_files,
      OF fresh again]
  obtain b1 b2 b3 where
    w: "files (snd (run later_env (files (snd (run sample_env sample_files))))) ''contract_addresses.json'' =
       Text (json_dump later_env [(''MyToken'', PyStr b1), (''DataReview'', PyStr b2), (''DataBundle'', PyStr b3)])"
    and c: "created later_env (deployment_requests (events (snd (run later_env (files (snd (run sample_env sample_files))))))) = [b1, b2, b3]"
    and d: "set [b1, b2, b3] \<inter> set (created sample_env (deployment_requests (events (snd (run sample_env sample_files))))) = {}"
    and o: "\<exists>a1 a2 a3.
           files (snd (run sample_env sample_files)) ''contract_addresses.json'' =
             Text (json_dump sample_env [(''MyToken'', PyStr a1), (''DataReview'', PyStr a2), (''DataBundle'', PyStr a3)]) \<and>
           created sample_env (deployment_requests (events (snd (run sample_env sample_files)))) = [a1, a2, a3] \<and>
           set [a1, a2, a3] \<noteq> set [b1, b2, b3]"
    using ok1 by blast
  from c c2 have b: "b1 = ''0xea0''" "b2 = ''0xeb0''" "b3 = ''0xec0''" by simp_all
  from o c1 obtain a1 a2 a3 where
    a: "a1 = ''0xca0''" "a2 = ''0xcb0''" "a3 = ''0xcc0''"
    and wa: "files (snd (run sample_env sample_files)) ''contract_addresses.json'' =
             Text (json_dump sample_env [(''MyToken'', PyStr a1), (''DataReview'', PyStr a2), (''DataBundle'', PyStr a3)])"
    and ne: "set [a1, a2, a3] \<noteq> set [b1, b2, b3]"
    by auto
  have w1: "files (snd (run sample_env sample_files)) ''contract_addresses.json'' =
     Text ''MyToken=0xca0;DataReview=0xcb0;DataBundle=0xcc0;''"
    using wa by (simp add: a sample_env_fields sample_dump_def)
  have w2: "files (snd (run later_env (files (snd (run sample_env sample_files))))) ''contract_addresses.json'' =
     Text ''MyToken=0xea0;DataReview=0xeb0;DataBundle=0xec0;''"
    using w by (simp add: b later_env_fields sample_dump_def)
  have d': "set [''0xea0'', ''0xeb0'', ''0xec0''] \<inter> set [''0xca0'', ''0xcb0'', ''0xcc0''] = {}"
    using d unfolding c1 b .
  have ne': "set [''0xca0'', ''0xcb0'', ''0xcc0''] \<noteq> set [''0xea0'', ''0xeb0'', ''0xec0'']"
    using ne unfolding a b .
  from again c1 c2 w1 w2 d' ne' show ?thesis
    by (intro conjI)
qed

end
